(* ===== verification/Prelude.thy ===== *)
theory Prelude
  imports Complex_Main
begin

text \<open>
  Shared vocabulary of the P-control development. The simulator of
  \<^verbatim>\<open>src/src/App.js\<close> works on JavaScript numbers; the model reads them as
  real numbers (positions, errors, gains) and as natural numbers (counters that only
  grow by one). This theory holds the collections of lemmas the component theories
  extend, the clamp idiom \<open>Math.max(lo, Math.min(hi, x))\<close> of the tick, and the
  generic facts about it and about geometric decay that the components share.
\<close>

named_theorems model_defs "definitions unfolded when a step of the model is computed"
named_theorems clamp_simps "rewrite rules for the clamp idiom"

type_synonym position = real
type_synonym gain = real

section \<open>The clamp idiom\<close>

text \<open>\<open>Math.max(lo, Math.min(hi, x))\<close>, as written on line 301 of \<^verbatim>\<open>App.js\<close>.\<close>

definition js_clamp :: "real \<Rightarrow> real \<Rightarrow> real \<Rightarrow> real" where
  "js_clamp lo hi x = max lo (min hi x)"

declare js_clamp_def [model_defs]

lemma js_clamp_bounds [simp]:
  "lo \<le> hi \<Longrightarrow> lo \<le> js_clamp lo hi x \<and> js_clamp lo hi x \<le> hi"
  by (auto simp: js_clamp_def)

lemma js_clamp_id [clamp_simps]:
  "lo \<le> x \<Longrightarrow> x \<le> hi \<Longrightarrow> js_clamp lo hi x = x"
  by (simp add: js_clamp_def)

lemma js_clamp_hi [clamp_simps]:
  "lo \<le> hi \<Longrightarrow> hi \<le> x \<Longrightarrow> js_clamp lo hi x = hi"
  by (simp add: js_clamp_def)

lemma js_clamp_le_hi_iff:
  "lo < hi \<Longrightarrow> js_clamp lo hi x = hi \<longleftrightarrow> hi \<le> x"
  by (auto simp: js_clamp_def)

section \<open>One clamped proportional step\<close>

text \<open>
  From a position \<open>p\<close> in \<open>[0, 100]\<close> and a non-negative gain \<open>g\<close>, the clamped
  step \<open>p + g (100 - p)\<close> leaves the distance \<open>(100 - p) max(0, 1 - g)\<close> to the
  setpoint: scaled by \<open>1 - g\<close> below gain one, zero from gain one on.
\<close>

lemma clamped_p_step_dist:
  fixes p g :: real
  assumes p0: "0 \<le> p" and p100: "p \<le> 100" and g0: "0 \<le> g"
  shows "100 - js_clamp 0 100 (p + g * (100 - p)) = (100 - p) * max 0 (1 - g)"
proof (cases "g \<le> 1")
  case True
  from p100 g0 have "0 \<le> g * (100 - p)" by simp
  moreover from True p100 g0 have "g * (100 - p) \<le> 100 - p"
    by (simp add: mult_left_le_one_le)
  ultimately have "js_clamp 0 100 (p + g * (100 - p)) = p + g * (100 - p)"
    using p0 by (simp add: js_clamp_id)
  with True show ?thesis by (simp add: algebra_simps)
next
  case False
  from False p100 have "100 - p \<le> g * (100 - p)"
    by (simp add: mult_le_cancel_right1)
  then have "js_clamp 0 100 (p + g * (100 - p)) = 100"
    by (simp add: js_clamp_hi)
  with False show ?thesis by simp
qed
lemma p_step_ge_setpoint_iff:
  fixes p g :: real
  assumes "p < 100"
  shows "100 \<le> p + g * (100 - p) \<longleftrightarrow> 1 \<le> g"
proof -
  have "100 \<le> p + g * (100 - p) \<longleftrightarrow> 0 \<le> (g - 1) * (100 - p)"
    by (simp add: algebra_simps)
  also have "\<dots> \<longleftrightarrow> 1 \<le> g"
    using assms by (simp add: zero_le_mult_iff)
  finally show ?thesis .
qed

lemma p_step_gt_setpoint_iff:
  fixes p g :: real
  assumes "p < 100"
  shows "100 < p + g * (100 - p) \<longleftrightarrow> 1 < g"
proof -
  have "100 < p + g * (100 - p) \<longleftrightarrow> 0 < (g - 1) * (100 - p)"
    by (simp add: algebra_simps)
  also have "\<dots> \<longleftrightarrow> 1 < g"
    using assms by (simp add: zero_less_mult_iff)
  finally show ?thesis .
qed

section \<open>Geometric decay\<close>

text \<open>
  Under a gain below one the distance to the setpoint shrinks by a constant factor
  per tick; these two facts say that such a distance stays positive and still falls
  below every positive bound.
\<close>

lemma decay_pos:
  fixes r e :: real
  assumes "0 < r" and "0 < e"
  shows "0 < e * r ^ n"
  using assms by simp

lemma decay_below:
  fixes r e eps :: real
  assumes "0 \<le> r" and "r < 1" and "0 < eps" and "0 \<le> e"
  shows "\<exists>n. e * r ^ n < eps"
proof (cases "e = 0")
  case True
  with assms(3) show ?thesis by auto
next
  case False
  with assms(4) have e: "0 < e" by simp
  from assms(3) e have "0 < eps / e" by simp
  from real_arch_pow_inv [OF this assms(2)] obtain n where "r ^ n < eps / e" ..
  with e have "e * r ^ n < eps" by (simp add: field_simps)
  then show ?thesis ..
qed

end
