(* ===== verification/Engine.thy ===== *)
theory Engine
  imports Prelude
begin

text \<open>
  The control loop engine of \<^verbatim>\<open>PControlGame\<close> (\<^verbatim>\<open>src/src/App.js\<close>, lines
  248 to 319). The component keeps three pieces of React state: the object
  \<open>gameState\<close> (record \<open>game_state\<close>), the counter \<open>oscillationCount\<close> and the
  flag \<open>hasOvershot\<close>. The game loop is a \<open>useEffect\<close> whose body captures two
  mutable locals, \<open>lastPosition\<close> and \<open>crossingCount\<close>, and the value of
  \<open>hasOvershot\<close> at the time it ran; these live in the closure of the
  \<open>setInterval\<close> callback (record \<open>interval_closure\<close>). React re-runs the effect,
  after tearing the old interval down, whenever one of its dependencies
  \<open>[gameState.isRunning, gameState.pGain, hasOvershot]\<close> changes; the model keeps
  the dependency values of the last run in the state (\<open>effectDeps\<close>) and compares
  them after every update (\<open>commit\<close>).
\<close>

section \<open>State\<close>

record game_state =
  position :: real
  error :: real
  isRunning :: bool
  pGain :: real
  overshoot :: real
  oscillations :: nat

record interval_closure =
  lastPosition :: real
  crossingCount :: nat
  seenOvershot :: bool

type_synonym effect_deps = "bool \<times> real \<times> bool"

record app =
  gameState :: game_state
  oscillationCount :: nat
  hasOvershot :: bool
  gameInterval :: "interval_closure option"
  effectDeps :: effect_deps

definition initial_game_state :: game_state where
  "initial_game_state =
     \<lparr>position = 30, error = 70, isRunning = False, pGain = 0.8,
      overshoot = 0, oscillations = 0\<rparr>"

text \<open>
  The state after mounting: the three \<open>useState\<close> initialisers, and the effect run
  once on mount with \<open>isRunning = false\<close>, which starts no interval.
\<close>

definition initial_app :: app where
  "initial_app =
     \<lparr>gameState = initial_game_state, oscillationCount = 0, hasOvershot = False,
      gameInterval = None, effectDeps = (False, 0.8, False)\<rparr>"

section \<open>The tick\<close>

text \<open>\<open>error\<close>, \<open>movement\<close> and the unclamped \<open>newPosition\<close> of lines 279 to 282.\<close>

definition unclamped_next :: "game_state \<Rightarrow> real" where
  "unclamped_next gs =
     (let err = 100 - position gs;
          movement = pGain gs * err
      in position gs + movement)"

text \<open>The crossing test of lines 285 to 288.\<close>

definition crossed :: "real \<Rightarrow> real \<Rightarrow> bool" where
  "crossed lastPos newPos \<longleftrightarrow>
     (lastPos < 100 \<and> newPos \<ge> 100) \<or> (lastPos > 100 \<and> newPos \<le> 100)"

text \<open>
  One firing of the interval callback (lines 277 to 313): the updater passed to
  \<open>setGameState\<close>, with its side effects on the closure locals and the two calls
  \<open>setOscillationCount\<close> and \<open>setHasOvershot\<close> it makes. The overshoot test reads
  the captured \<open>hasOvershot\<close>; the reported \<open>overshoot\<close> is computed after
  \<open>newPosition\<close> has been overwritten by its clamped value (line 301).
\<close>

definition interval_tick :: "interval_closure \<Rightarrow> app \<Rightarrow> interval_closure \<times> app" where
  "interval_tick c s =
     (let prevState = gameState s;
          newPosition = unclamped_next prevState;
          hit = crossed (lastPosition c) newPosition;
          cc = (if hit then Suc (crossingCount c) else crossingCount c);
          oc = (if hit then Suc (oscillationCount s) else oscillationCount s);
          ho = (if newPosition > 100 \<and> \<not> seenOvershot c then True else hasOvershot s);
          clamped = js_clamp 0 100 newPosition;
          gs = prevState\<lparr>position := clamped, error := 100 - clamped,
                         oscillations := cc,
                         overshoot := (if seenOvershot c then max 0 (clamped - 100) else 0)\<rparr>
      in (c\<lparr>lastPosition := newPosition, crossingCount := cc\<rparr>,
          s\<lparr>gameState := gs, oscillationCount := oc, hasOvershot := ho\<rparr>))"

section \<open>The effect and its re-runs\<close>

text \<open>The dependency array of line 319.\<close>

definition deps :: "app \<Rightarrow> effect_deps" where
  "deps s = (isRunning (gameState s), pGain (gameState s), hasOvershot s)"

text \<open>The cleanup of lines 316 to 318: \<open>clearInterval\<close>.\<close>

definition effect_cleanup :: "app \<Rightarrow> app" where
  "effect_cleanup s = s\<lparr>gameInterval := None\<rparr>"

text \<open>
  The effect body (lines 272 to 314): fresh locals seeded from the committed state,
  and an interval only when the game is running.
\<close>

definition run_effect :: "app \<Rightarrow> app" where
  "run_effect s =
     s\<lparr>gameInterval :=
         (if isRunning (gameState s)
          then Some \<lparr>lastPosition = position (gameState s), crossingCount = 0,
                     seenOvershot = hasOvershot s\<rparr>
          else None),
       effectDeps := deps s\<rparr>"

text \<open>
  After every state update React commits and re-runs the effect when a dependency
  differs from the values of its last run.
\<close>

definition commit :: "app \<Rightarrow> app" where
  "commit s = (if deps s = effectDeps s then s else run_effect (effect_cleanup s))"

declare initial_game_state_def [model_defs] initial_app_def [model_defs]
  crossed_def [model_defs] interval_tick_def [model_defs]
  deps_def [model_defs] effect_cleanup_def [model_defs] run_effect_def [model_defs]
  commit_def [model_defs]

section \<open>The commit touches only the effect's bookkeeping\<close>

lemma commit_keeps_state [simp]:
  "gameState (commit s) = gameState s"
  "oscillationCount (commit s) = oscillationCount s"
  "hasOvershot (commit s) = hasOvershot s"
  by (simp_all add: commit_def run_effect_def effect_cleanup_def)

lemma deps_commit [simp]: "deps (commit s) = deps s"
  by (simp add: deps_def)

section \<open>Arithmetic of one tick\<close>

text \<open>
  The P-law seen from the setpoint: the new distance is the old one scaled by
  \<open>1 - pGain\<close>. The remaining facts read off on which side of the setpoint the
  unclamped position lands.
\<close>

lemma unclamped_next_dist:
  "unclamped_next gs - 100 = (pGain gs - 1) * (100 - position gs)"
  by (simp add: unclamped_next_def algebra_simps)

lemma unclamped_next_at_setpoint [simp]:
  "position gs = 100 \<Longrightarrow> unclamped_next gs = 100"
  by (simp add: unclamped_next_def)

lemma unclamped_next_ge:
  "0 \<le> pGain gs \<Longrightarrow> position gs \<le> 100 \<Longrightarrow> position gs \<le> unclamped_next gs"
  by (simp add: unclamped_next_def)

lemma unclamped_next_ge_100_iff:
  "position gs < 100 \<Longrightarrow> 100 \<le> unclamped_next gs \<longleftrightarrow> 1 \<le> pGain gs"
  by (simp add: unclamped_next_def p_step_ge_setpoint_iff)

lemma unclamped_next_gt_100_iff:
  "position gs < 100 \<Longrightarrow> 100 < unclamped_next gs \<longleftrightarrow> 1 < pGain gs"
  by (simp add: unclamped_next_def p_step_gt_setpoint_iff)

section \<open>One tick of the callback\<close>

text \<open>
  C17. One firing of the interval callback, from a position in \<open>[0, 100]\<close> and a
  non-negative gain, leaves the position in \<open>[0, 100]\<close> and the error equal to the
  old distance to the setpoint times \<open>max(0, 1 - pGain)\<close>: the error never grows,
  it shrinks by the factor \<open>1 - pGain\<close> below gain one and vanishes from gain one on.
\<close>

theorem tick_error_contracts:
  assumes "0 \<le> position (gameState s)" and "position (gameState s) \<le> 100"
    and "0 \<le> pGain (gameState s)"
  shows "error (gameState (snd (interval_tick c s))) =
           (100 - position (gameState s)) * max 0 (1 - pGain (gameState s)) \<and>
         0 \<le> position (gameState (snd (interval_tick c s))) \<and>
         position (gameState (snd (interval_tick c s))) \<le> 100"
  using clamped_p_step_dist [OF assms]
  by (simp add: interval_tick_def unclamped_next_def Let_def)

theorem tick_error_contracts_witness:
  "error (gameState (snd (interval_tick
      \<lparr>lastPosition = 30, crossingCount = 0, seenOvershot = False\<rparr> initial_app))) = 14 \<and>
   position (gameState (snd (interval_tick
      \<lparr>lastPosition = 30, crossingCount = 0, seenOvershot = False\<rparr> initial_app))) \<le> 100"
  using tick_error_contracts [of initial_app
      "\<lparr>lastPosition = 30, crossingCount = 0, seenOvershot = False\<rparr>"]
  by (simp add: initial_app_def initial_game_state_def)

end
