(* ===== verification/Session.thy ===== *)
theory Session
  imports Engine
begin

text \<open>
  The session controller of \<^verbatim>\<open>PControlGame\<close>: the three handlers
  \<open>handleStart\<close>, \<open>handleReset\<close> and \<open>handlePGainChange\<close> (\<^verbatim>\<open>App.js\<close>,
  lines 321 to 343) and the gates the rendered widgets put in front of them (the
  slider's range and \<open>disabled\<close> attribute, lines 359 to 368, and the start button's
  \<open>disabled\<close> attribute, lines 407 to 411). Together with the interval of
  \<open>Engine\<close> they make a state machine on \<^typ>\<open>app\<close>: one \<open>ui_event\<close>
  per user action or timer firing, \<open>dispatch\<close> applying the handler and React's
  commit, \<open>app_step\<close> the step relation guarded by what the page lets happen, and
  \<open>reachable\<close> the states a session can reach from mounting.
\<close>

section \<open>Handlers\<close>

definition handleStart :: "app \<Rightarrow> app" where
  "handleStart s = s\<lparr>gameState := (gameState s)\<lparr>isRunning := True\<rparr>\<rparr>"

definition handleReset :: "app \<Rightarrow> app" where
  "handleReset s =
     s\<lparr>gameState := \<lparr>position = 30, error = 70, isRunning = False, pGain = 0.8,
                     overshoot = 0, oscillations = 0\<rparr>,
       oscillationCount := 0, hasOvershot := False\<rparr>"

text \<open>\<open>pGain: parseFloat(event.target.value)\<close>: the parsed slider value is the argument.\<close>

definition handlePGainChange :: "real \<Rightarrow> app \<Rightarrow> app" where
  "handlePGainChange v s = s\<lparr>gameState := (gameState s)\<lparr>pGain := v\<rparr>\<rparr>"

section \<open>The slider\<close>

text \<open>
  \<open><input type="range" min="0.1" max="2.0" step="0.05">\<close> offers the values
  \<open>0.1 + 0.05 k\<close> for \<open>k = 0, \<dots>, 38\<close>.
\<close>

definition slider_value :: "nat \<Rightarrow> real" where
  "slider_value k = 1 / 10 + real k / 20"

definition slider_admits :: "real \<Rightarrow> bool" where
  "slider_admits v \<longleftrightarrow> v \<in> set (map slider_value [0..<39])"

section \<open>Events and steps\<close>

datatype ui_event = Tick | ClickStart | ClickReset | SlidePGain real

text \<open>
  A firing of the live interval: the callback's effect on the closure is written
  back into the state before the commit.
\<close>

definition fire_interval :: "interval_closure \<Rightarrow> app \<Rightarrow> app" where
  "fire_interval c s = (case interval_tick c s of (c', s') \<Rightarrow> s'\<lparr>gameInterval := Some c'\<rparr>)"

text \<open>
  What the page lets happen: the timer fires only while an interval is live, the
  start button and the slider are \<open>disabled\<close> while the game runs, and the slider
  yields only its own values.
\<close>

fun enabled :: "app \<Rightarrow> ui_event \<Rightarrow> bool" where
  "enabled s Tick \<longleftrightarrow> gameInterval s \<noteq> None"
| "enabled s ClickStart \<longleftrightarrow> \<not> isRunning (gameState s)"
| "enabled s ClickReset \<longleftrightarrow> True"
| "enabled s (SlidePGain v) \<longleftrightarrow> \<not> isRunning (gameState s) \<and> slider_admits v"

fun dispatch :: "app \<Rightarrow> ui_event \<Rightarrow> app" where
  "dispatch s Tick =
     (case gameInterval s of None \<Rightarrow> s | Some c \<Rightarrow> commit (fire_interval c s))"
| "dispatch s ClickStart = commit (handleStart s)"
| "dispatch s ClickReset = commit (handleReset s)"
| "dispatch s (SlidePGain v) = commit (handlePGainChange v s)"

inductive app_step :: "app \<Rightarrow> ui_event \<Rightarrow> app \<Rightarrow> bool" where
  tick: "gameInterval s = Some c \<Longrightarrow> app_step s Tick (commit (fire_interval c s))"
| start: "\<not> isRunning (gameState s) \<Longrightarrow> app_step s ClickStart (commit (handleStart s))"
| reset: "app_step s ClickReset (commit (handleReset s))"
| gain: "\<not> isRunning (gameState s) \<Longrightarrow> slider_admits v \<Longrightarrow>
     app_step s (SlidePGain v) (commit (handlePGainChange v s))"

inductive reachable :: "app \<Rightarrow> bool" where
  init: "reachable initial_app"
| step: "reachable s \<Longrightarrow> app_step s e t \<Longrightarrow> reachable t"

text \<open>A session as a list of events; \<open>None\<close> when the page would not let one happen.\<close>

fun run :: "app \<Rightarrow> ui_event list \<Rightarrow> app option" where
  "run s [] = Some s"
| "run s (e # es) = (if enabled s e then run (dispatch s e) es else None)"

declare handleStart_def [model_defs] handleReset_def [model_defs]
  handlePGainChange_def [model_defs] fire_interval_def [model_defs]

section \<open>Two sessions used as examples\<close>

text \<open>
  The state after pressing start and one tick at the initial gain 0.8, and the state
  after choosing the gain 2.0, pressing start and one tick. They are the concrete
  reachable states at which the theorems with hypotheses are exercised.
\<close>

definition demo_slow :: app where
  "demo_slow =
     \<lparr>gameState = \<lparr>position = 86, error = 14, isRunning = True, pGain = 0.8,
                   overshoot = 0, oscillations = 0\<rparr>,
      oscillationCount = 0, hasOvershot = False,
      gameInterval = Some \<lparr>lastPosition = 86, crossingCount = 0, seenOvershot = False\<rparr>,
      effectDeps = (True, 0.8, False)\<rparr>"

definition demo_fast :: app where
  "demo_fast =
     \<lparr>gameState = \<lparr>position = 100, error = 0, isRunning = True, pGain = 2,
                   overshoot = 0, oscillations = 1\<rparr>,
      oscillationCount = 1, hasOvershot = True,
      gameInterval = Some \<lparr>lastPosition = 100, crossingCount = 0, seenOvershot = True\<rparr>,
      effectDeps = (True, 2, True)\<rparr>"

section \<open>The step relation and its executable form\<close>

inductive_cases app_step_TickE: "app_step s Tick t"
inductive_cases app_step_StartE: "app_step s ClickStart t"
inductive_cases app_step_ResetE: "app_step s ClickReset t"
inductive_cases app_step_GainE: "app_step s (SlidePGain v) t"


lemma app_step_iff: "app_step s e t \<longleftrightarrow> enabled s e \<and> t = dispatch s e"
proof
  assume "app_step s e t"
  then show "enabled s e \<and> t = dispatch s e"
    by (induction rule: app_step.induct) auto
next
  assume "enabled s e \<and> t = dispatch s e"
  then show "app_step s e t"
    by (cases e) (auto intro: app_step.intros)
qed

lemma run_append:
  "run s (xs @ ys) = (case run s xs of None \<Rightarrow> None | Some t \<Rightarrow> run t ys)"
  by (induction xs arbitrary: s) auto

lemma run_reachable: "reachable s \<Longrightarrow> run s es = Some t \<Longrightarrow> reachable t"
proof (induction es arbitrary: s)
  case Nil
  then show ?case by simp
next
  case (Cons e es)
  then have "enabled s e" and rest: "run (dispatch s e) es = Some t"
    by (auto split: if_splits)
  with Cons.prems(1) have "reachable (dispatch s e)"
    by (auto intro: reachable.step simp: app_step_iff)
  from this rest show ?case by (rule Cons.IH)
qed

lemma reachable_run: "reachable s \<Longrightarrow> \<exists>es. run initial_app es = Some s"
proof (induction rule: reachable.induct)
  case init
  have "run initial_app [] = Some initial_app" by simp
  then show ?case ..
next
  case (step s e t)
  then obtain es where "run initial_app es = Some s" by blast
  with step.hyps(2) have "run initial_app (es @ [e]) = Some t"
    by (simp add: run_append app_step_iff)
  then show ?case ..
qed

lemma slider_admits_iff: "slider_admits v \<longleftrightarrow> (\<exists>k < 39. v = slider_value k)"
  by (auto simp: slider_admits_def)

lemma slider_admits_value: "k < 39 \<Longrightarrow> slider_admits (slider_value k)"
  by (auto simp: slider_admits_iff)

lemma slider_admits_range: "slider_admits v \<Longrightarrow> 1 / 10 \<le> v \<and> v \<le> 2"
  by (auto simp: slider_admits_iff slider_value_def)

lemma run_initial_reachable: "run initial_app es = Some s \<Longrightarrow> reachable s"
  by (rule run_reachable [OF reachable.init])

lemma slider_admits_initial_gain: "slider_admits 0.8"
  using slider_admits_value [of 14] by (simp add: slider_value_def)

lemma slider_admits_2: "slider_admits 2"
  using slider_admits_value [of 38] by (simp add: slider_value_def)

lemma run_demo_slow: "run initial_app [ClickStart, Tick] = Some demo_slow"
  by (simp add: demo_slow_def model_defs unclamped_next_def Let_def)

lemma run_demo_fast: "run initial_app [SlidePGain 2, ClickStart, Tick] = Some demo_fast"
  by (simp add: demo_fast_def model_defs unclamped_next_def Let_def slider_admits_2)

lemma reachable_demo_slow: "reachable demo_slow"
  by (rule run_initial_reachable [OF run_demo_slow])

lemma reachable_demo_fast: "reachable demo_fast"
  by (rule run_initial_reachable [OF run_demo_fast])

end
