(* ===== verification/Invariants.thy ===== *)
theory Invariants
  imports Session
begin

text \<open>
  The invariant every reachable state of the simulator keeps, and its preservation
  by each kind of step. It has three parts: the bounds on the numbers the page
  shows (\<open>state_bounds\<close>), the agreement between the live interval, its closure
  and the effect's dependencies (\<open>effect_sync\<close>), and what the counters can be
  (\<open>counters_ok\<close>). The third part is where the model departs from the spec: once
  the box reaches the setpoint it stays there, so the crossing counter is one
  exactly when the position is 100.
\<close>

definition state_bounds :: "app \<Rightarrow> bool" where
  "state_bounds s \<longleftrightarrow>
     (let gs = gameState s
      in 0 \<le> position gs \<and> position gs \<le> 100 \<and> error gs = 100 - position gs \<and>
         slider_admits (pGain gs) \<and> overshoot gs = 0)"

definition effect_sync :: "app \<Rightarrow> bool" where
  "effect_sync s \<longleftrightarrow>
     effectDeps s = deps s \<and>
     (case gameInterval s of
        None \<Rightarrow> \<not> isRunning (gameState s)
      | Some c \<Rightarrow> isRunning (gameState s) \<and> lastPosition c = position (gameState s) \<and>
                 seenOvershot c = hasOvershot s \<and> crossingCount c \<le> oscillationCount s)"

definition counters_ok :: "app \<Rightarrow> bool" where
  "counters_ok s \<longleftrightarrow>
     (hasOvershot s \<longrightarrow> position (gameState s) = 100) \<and>
     oscillationCount s = (if position (gameState s) = 100 then 1 else 0) \<and>
     oscillations (gameState s) \<le> oscillationCount s"

definition app_inv :: "app \<Rightarrow> bool" where
  "app_inv s \<longleftrightarrow> state_bounds s \<and> effect_sync s \<and> counters_ok s"

lemmas inv_defs = app_inv_def state_bounds_def effect_sync_def counters_ok_def

section \<open>Preservation\<close>

lemma app_inv_initial: "app_inv initial_app"
  using slider_admits_initial_gain by (simp add: inv_defs model_defs)

lemma app_inv_start:
  assumes "app_inv s" and "\<not> isRunning (gameState s)"
  shows "app_inv (commit (handleStart s))"
  using assms by (auto simp: inv_defs model_defs Let_def split: option.splits)

lemma app_inv_reset:
  assumes "app_inv s"
  shows "app_inv (commit (handleReset s))"
  using assms slider_admits_initial_gain by (auto simp: inv_defs model_defs Let_def split: option.splits)

lemma app_inv_gain:
  assumes "app_inv s" and "\<not> isRunning (gameState s)" and "slider_admits v"
  shows "app_inv (commit (handlePGainChange v s))"
  using assms
  by (auto simp: inv_defs model_defs Let_def split: option.splits)

text \<open>
  A tick splits three ways: the box already at the setpoint stays there; below it
  with a gain under one it moves up without reaching it; below it with a gain of at
  least one it reaches or passes the setpoint, is clamped to 100 and one crossing
  is counted (and, when it passed, the effect re-runs with fresh locals).
\<close>

lemma app_inv_tick:
  assumes inv: "app_inv s" and c: "gameInterval s = Some c"
  shows "app_inv (commit (fire_interval c s))"
proof -
  let ?gs = "gameState s"
  let ?u = "unclamped_next ?gs"
  from inv have p0: "0 \<le> position ?gs" and p100: "position ?gs \<le> 100"
    and g0: "1 / 10 \<le> pGain ?gs"
    by (auto simp: inv_defs Let_def dest: slider_admits_range)
  consider (top) "position ?gs = 100" | (slow) "position ?gs < 100" "pGain ?gs < 1"
    | (fast) "position ?gs < 100" "1 \<le> pGain ?gs"
    using p100 by linarith
  then show ?thesis
  proof cases
    case top
    with inv c show ?thesis
      by (auto simp: inv_defs model_defs Let_def)
  next
    case slow
    then have "?u < 100" using unclamped_next_ge_100_iff [of ?gs] by linarith
    moreover have "0 \<le> ?u" using unclamped_next_ge [of ?gs] p0 p100 g0 by linarith
    ultimately show ?thesis using inv c slow
      by (auto simp: inv_defs model_defs Let_def clamp_simps)
  next
    case fast
    then have "100 \<le> ?u" using unclamped_next_ge_100_iff [of ?gs] by linarith
    then show ?thesis using inv c fast
      by (auto simp: inv_defs model_defs Let_def clamp_simps)
  qed
qed

lemma app_step_inv: "app_step s e t \<Longrightarrow> app_inv s \<Longrightarrow> app_inv t"
  by (induction rule: app_step.induct)
    (auto intro: app_inv_tick app_inv_start app_inv_reset app_inv_gain)

lemma reachable_app_inv: "reachable s \<Longrightarrow> app_inv s"
proof (induction rule: reachable.induct)
  case init
  show ?case by (rule app_inv_initial)
next
  case (step s e t)
  from step.hyps(2) step.IH show ?case by (rule app_step_inv)
qed

lemmas reachable_bounds = reachable_app_inv [unfolded app_inv_def, THEN conjunct1]
lemmas reachable_sync = reachable_app_inv [unfolded app_inv_def, THEN conjunct2, THEN conjunct1]
lemmas reachable_counters = reachable_app_inv [unfolded app_inv_def, THEN conjunct2, THEN conjunct2]

lemma reachable_gain_range:
  assumes "reachable s"
  shows "1 / 10 \<le> pGain (gameState s) \<and> pGain (gameState s) \<le> 2"
proof -
  have "slider_admits (pGain (gameState s))"
    using reachable_bounds [OF assms] by (simp add: state_bounds_def Let_def)
  then show ?thesis by (rule slider_admits_range)
qed

section \<open>Properties of every reachable state\<close>

text \<open>
  C1. Bounded state: in every state a session can reach, the position lies in
  \<open>[0, 100]\<close> and the error is exactly \<open>100 - position\<close>.
\<close>

theorem reachable_position_bounded:
  assumes "reachable s"
  shows "0 \<le> position (gameState s) \<and> position (gameState s) \<le> 100 \<and>
         error (gameState s) = 100 - position (gameState s)"
  using reachable_bounds [OF assms] by (simp add: state_bounds_def Let_def)

theorem reachable_position_bounded_witness:
  "0 \<le> position (gameState demo_slow) \<and> position (gameState demo_slow) \<le> 100 \<and>
   error (gameState demo_slow) = 100 - position (gameState demo_slow)"
  using reachable_position_bounded [OF reachable_demo_slow] by simp

text \<open>
  C5. The crossing counter shown on the page (\<open>oscillationCount\<close>) never exceeds
  one, and it is one exactly when the box sits at the setpoint: the clamp makes
  position 100 a fixed point of the tick, so the oscillation the page invites the
  learner to watch cannot be counted.
\<close>

theorem oscillation_count_at_most_one:
  assumes "reachable s"
  shows "oscillationCount s \<le> 1 \<and> (oscillationCount s = 1 \<longleftrightarrow> position (gameState s) = 100)"
  using reachable_counters [OF assms] by (simp add: counters_ok_def)

theorem oscillation_count_at_most_one_witness:
  "oscillationCount demo_fast \<le> 1 \<and>
   (oscillationCount demo_fast = 1 \<longleftrightarrow> position (gameState demo_fast) = 100)"
  using oscillation_count_at_most_one [OF reachable_demo_fast] by simp

text \<open>
  C6. The \<open>overshoot\<close> field of the game state is zero in every reachable state,
  also after the box has passed the setpoint: the code computes it from the position
  after clamping.
\<close>

theorem overshoot_always_zero:
  assumes "reachable s"
  shows "overshoot (gameState s) = 0"
  using reachable_bounds [OF assms] by (simp add: state_bounds_def Let_def)

theorem overshoot_always_zero_witness:
  "hasOvershot demo_fast \<and> overshoot (gameState demo_fast) = 0"
  using overshoot_always_zero [OF reachable_demo_fast] by (simp add: demo_fast_def)

text \<open>
  C7. Reset from any reachable state yields exactly the state after mounting: the
  initial game state, both counters cleared and no live interval.
\<close>

theorem reset_restores_initial:
  assumes "reachable s"
  shows "dispatch s ClickReset = initial_app"
  using reachable_sync [OF assms]
  by (auto simp: effect_sync_def model_defs split: option.splits)

theorem reset_restores_initial_witness:
  "dispatch demo_fast ClickReset = initial_app"
  by (rule reset_restores_initial [OF reachable_demo_fast])

text \<open>
  C8. In every reachable state a timer tick can fire exactly when the game is
  running: no interval outlives a stop, and a running game always has one.
\<close>

theorem tick_enabled_iff_running:
  assumes "reachable s"
  shows "enabled s Tick \<longleftrightarrow> isRunning (gameState s)"
  using reachable_sync [OF assms] by (auto simp: effect_sync_def split: option.splits)

theorem tick_enabled_iff_running_witness:
  "enabled demo_slow Tick \<and> isRunning (gameState demo_slow)"
  using tick_enabled_iff_running [OF reachable_demo_slow] by (simp add: demo_slow_def)

text \<open>
  C9. A gain change happens only while the game is stopped; it sets the gain to the
  slider's value exactly and leaves the position, the counters and the (absent)
  interval as they were.
\<close>

theorem gain_change_gated:
  assumes "reachable s" and "app_step s (SlidePGain v) t"
  shows "\<not> isRunning (gameState s) \<and> pGain (gameState t) = v \<and>
         position (gameState t) = position (gameState s) \<and>
         oscillationCount t = oscillationCount s \<and> gameInterval t = None"
proof -
  from assms(2) have stopped: "\<not> isRunning (gameState s)"
    and t: "t = commit (handlePGainChange v s)"
    by (auto elim: app_step_GainE)
  from reachable_sync [OF assms(1)] stopped have "gameInterval s = None"
    by (auto simp: effect_sync_def split: option.splits)
  with stopped t show ?thesis by (simp add: model_defs)
qed

theorem gain_change_gated_witness:
  "pGain (gameState (dispatch initial_app (SlidePGain 1.5))) = 1.5"
proof -
  have "slider_admits 1.5"
    using slider_admits_value [of 28] by (simp add: slider_value_def)
  then have "app_step initial_app (SlidePGain 1.5) (dispatch initial_app (SlidePGain 1.5))"
    by (simp add: app_step_iff initial_app_def initial_game_state_def)
  from gain_change_gated [OF reachable.init this] show ?thesis by simp
qed

text \<open>
  C10. \<open>handlePGainChange\<close> itself checks neither the running flag nor the range:
  called while the game runs, with any value, it installs that gain and the effect
  restarts the interval with fresh closure locals. Only the slider's
  \<open>disabled\<close> attribute and its range keep this from happening on the page.
\<close>

theorem gain_handler_unguarded:
  assumes "reachable s" and "isRunning (gameState s)" and "v \<noteq> pGain (gameState s)"
  shows "pGain (gameState (commit (handlePGainChange v s))) = v \<and>
         gameInterval (commit (handlePGainChange v s)) =
           Some \<lparr>lastPosition = position (gameState s), crossingCount = 0,
                 seenOvershot = hasOvershot s\<rparr>"
  using reachable_sync [OF assms(1)] assms(2,3)
  by (auto simp: effect_sync_def model_defs split: option.splits)

theorem gain_handler_unguarded_witness:
  "pGain (gameState (commit (handlePGainChange 5 demo_slow))) = 5 \<and>
   gameInterval (commit (handlePGainChange 5 demo_slow)) =
     Some \<lparr>lastPosition = 86, crossingCount = 0, seenOvershot = False\<rparr>"
  using gain_handler_unguarded [OF reachable_demo_slow, of 5] by (simp add: demo_slow_def)

text \<open>
  C15. Between resets the counters only grow: every step other than a reset keeps or
  increases \<open>oscillationCount\<close> and never clears \<open>hasOvershot\<close>.
\<close>

theorem counters_monotone:
  assumes "app_step s e t" and "e \<noteq> ClickReset"
  shows "oscillationCount s \<le> oscillationCount t \<and> (hasOvershot s \<longrightarrow> hasOvershot t)"
  using assms
  by (induction rule: app_step.induct)
    (auto simp: fire_interval_def interval_tick_def Let_def handleStart_def
      handlePGainChange_def)

theorem counters_monotone_witness:
  "oscillationCount demo_fast \<le> oscillationCount (dispatch demo_fast Tick) \<and>
   hasOvershot (dispatch demo_fast Tick)"
proof -
  have "app_step demo_fast Tick (dispatch demo_fast Tick)"
    by (simp add: app_step_iff demo_fast_def)
  from counters_monotone [OF this] show ?thesis by (simp add: demo_fast_def)
qed

text \<open>
  Pressing start while the game runs (which the disabled button prevents) would
  change nothing at all: the handler rewrites the same flag and the effect, whose
  dependencies are unchanged, is not re-run.
\<close>

theorem start_idempotent_when_running:
  assumes "reachable s" and "isRunning (gameState s)"
  shows "dispatch s ClickStart = s"
  using reachable_sync [OF assms(1)] assms(2)
  by (auto simp: effect_sync_def model_defs split: option.splits)

theorem start_idempotent_when_running_witness:
  "dispatch demo_slow ClickStart = demo_slow"
  using start_idempotent_when_running [OF reachable_demo_slow] by (simp add: demo_slow_def)

text \<open>
  C22. The closure of the live interval never holds stale data at a tick: its
  \<open>lastPosition\<close> is the committed position, its captured \<open>hasOvershot\<close> is the
  current flag, its \<open>crossingCount\<close> is at most the displayed counter, and the
  effect's recorded dependencies are the current ones.
\<close>

theorem closure_agrees_with_state:
  assumes "reachable s" and "gameInterval s = Some c"
  shows "lastPosition c = position (gameState s) \<and> seenOvershot c = hasOvershot s \<and>
         crossingCount c \<le> oscillationCount s \<and> effectDeps s = deps s"
  using reachable_sync [OF assms(1)] assms(2) by (simp add: effect_sync_def)

theorem closure_agrees_with_state_witness:
  "lastPosition \<lparr>lastPosition = 100, crossingCount = 0, seenOvershot = True\<rparr> =
     position (gameState demo_fast) \<and>
   seenOvershot \<lparr>lastPosition = 100, crossingCount = 0, seenOvershot = True\<rparr> =
     hasOvershot demo_fast"
  using closure_agrees_with_state [OF reachable_demo_fast] by (simp add: demo_fast_def)

text \<open>
  The gain is always one of the 39 values the slider offers
  (\<open>0.1, 0.15, \<dots>, 2.0\<close>), the initial 0.8 included.
\<close>

theorem gain_is_slider_value:
  assumes "reachable s"
  shows "\<exists>k < 39. pGain (gameState s) = slider_value k"
  using reachable_bounds [OF assms] by (simp add: state_bounds_def Let_def slider_admits_iff)

theorem gain_is_slider_value_witness:
  "\<exists>k < 39. pGain (gameState demo_fast) = slider_value k"
  by (rule gain_is_slider_value [OF reachable_demo_fast])



end
