(* ===== verification/Controller.thy ===== *)
theory Controller
  imports Invariants
begin

text \<open>
  The abstract P-controller: the simulation state of the spec's data model with
  its hidden loop variables made explicit and then eliminated, as the spec's design
  notes ask (a pure, re-run-safe tick). A state holds the position, the running
  flag, the gain, the crossing count and the overshoot latch; a tick applies the
  clamped P-law and counts a crossing when the setpoint lies between the current
  position and the unclamped next one. The refinement theorem says that the React
  implementation, with its closure locals, its captured flag and its effect re-runs,
  shows exactly this behaviour on every session.
\<close>

record ctrl =
  c_position :: real
  c_running :: bool
  c_gain :: real
  c_crossings :: nat
  c_overshot :: bool

definition ctrl_init :: ctrl where
  "ctrl_init = \<lparr>c_position = 30, c_running = False, c_gain = 0.8, c_crossings = 0,
                c_overshot = False\<rparr>"

definition ctrl_tick :: "ctrl \<Rightarrow> ctrl" where
  "ctrl_tick c =
     (let u = c_position c + c_gain c * (100 - c_position c)
      in c\<lparr>c_position := js_clamp 0 100 u,
           c_crossings := (if crossed (c_position c) u then Suc (c_crossings c)
                           else c_crossings c),
           c_overshot := (c_overshot c \<or> 100 < u)\<rparr>)"

fun ctrl_enabled :: "ctrl \<Rightarrow> ui_event \<Rightarrow> bool" where
  "ctrl_enabled c Tick \<longleftrightarrow> c_running c"
| "ctrl_enabled c ClickStart \<longleftrightarrow> \<not> c_running c"
| "ctrl_enabled c ClickReset \<longleftrightarrow> True"
| "ctrl_enabled c (SlidePGain v) \<longleftrightarrow> \<not> c_running c \<and> slider_admits v"

fun ctrl_step :: "ctrl \<Rightarrow> ui_event \<Rightarrow> ctrl" where
  "ctrl_step c Tick = ctrl_tick c"
| "ctrl_step c ClickStart = c\<lparr>c_running := True\<rparr>"
| "ctrl_step c ClickReset = ctrl_init"
| "ctrl_step c (SlidePGain v) = c\<lparr>c_gain := v\<rparr>"

fun ctrl_run :: "ctrl \<Rightarrow> ui_event list \<Rightarrow> ctrl option" where
  "ctrl_run c [] = Some c"
| "ctrl_run c (e # es) = (if ctrl_enabled c e then ctrl_run (ctrl_step c e) es else None)"

text \<open>What of the implementation's state the abstract controller sees.\<close>

definition abs_app :: "app \<Rightarrow> ctrl" where
  "abs_app s =
     \<lparr>c_position = position (gameState s), c_running = isRunning (gameState s),
      c_gain = pGain (gameState s), c_crossings = oscillationCount s,
      c_overshot = hasOvershot s\<rparr>"

section \<open>One step\<close>

lemma abs_app_commit [simp]: "abs_app (commit s) = abs_app s"
  by (simp add: abs_app_def)

lemma abs_app_tick:
  assumes "app_inv s" and "gameInterval s = Some c"
  shows "abs_app (commit (fire_interval c s)) = ctrl_tick (abs_app s)"
proof -
  from assms have "lastPosition c = position (gameState s)"
    and "seenOvershot c = hasOvershot s"
    by (auto simp: app_inv_def effect_sync_def)
  then show ?thesis
    by (auto simp: abs_app_def ctrl_tick_def fire_interval_def interval_tick_def
        unclamped_next_def Let_def)
qed

lemma abs_app_step:
  assumes "app_inv s" and "enabled s e"
  shows "abs_app (dispatch s e) = ctrl_step (abs_app s) e"
proof (cases e)
  case Tick
  with assms abs_app_tick show ?thesis by (auto split: option.splits)
qed (simp_all add: abs_app_def ctrl_init_def model_defs)

lemma abs_app_enabled:
  assumes "app_inv s"
  shows "enabled s e \<longleftrightarrow> ctrl_enabled (abs_app s) e"
  using assms
  by (cases e) (auto simp: abs_app_def app_inv_def effect_sync_def split: option.splits)

lemma abs_app_run:
  "reachable s \<Longrightarrow> map_option abs_app (run s es) = ctrl_run (abs_app s) es"
proof (induction es arbitrary: s)
  case Nil
  show ?case by simp
next
  case (Cons e es)
  have inv: "app_inv s" using Cons.prems by (rule reachable_app_inv)
  show ?case
  proof (cases "enabled s e")
    case True
    with Cons.prems have "reachable (dispatch s e)"
      by (auto intro: reachable.step simp: app_step_iff)
    then have "map_option abs_app (run (dispatch s e) es) =
               ctrl_run (abs_app (dispatch s e)) es"
      by (rule Cons.IH)
    with True inv show ?thesis
      by (simp add: abs_app_step abs_app_enabled [symmetric])
  next
    case False
    with inv show ?thesis by (simp add: abs_app_enabled [symmetric])
  qed
qed

section \<open>Runs of ticks of the abstract controller\<close>

lemma ctrl_tick_frame [simp]:
  "c_running (ctrl_tick c) = c_running c"
  "c_gain (ctrl_tick c) = c_gain c"
  by (simp_all add: ctrl_tick_def Let_def)

lemma ctrl_tick_bounds: "0 \<le> c_position (ctrl_tick c) \<and> c_position (ctrl_tick c) \<le> 100"
  by (simp add: ctrl_tick_def Let_def)

lemma ctrl_tick_dist:
  assumes "0 \<le> c_position c" "c_position c \<le> 100" "0 \<le> c_gain c"
  shows "100 - c_position (ctrl_tick c) = (100 - c_position c) * max 0 (1 - c_gain c)"
  using clamped_p_step_dist [OF assms] by (simp add: ctrl_tick_def Let_def)

lemma ctrl_tick_crossings:
  assumes "c_position c \<le> 100"
  shows "c_crossings (ctrl_tick c) =
           c_crossings c + (if c_position c < 100 \<and> 1 \<le> c_gain c then 1 else 0)"
  using assms p_step_ge_setpoint_iff [of "c_position c" "c_gain c"]
  by (auto simp: ctrl_tick_def crossed_def Let_def)

lemma ctrl_run_ticks:
  "c_running c \<Longrightarrow> ctrl_run c (replicate n Tick) = Some ((ctrl_tick ^^ n) c)"
  by (induction n arbitrary: c) (simp_all add: funpow_swap1)

lemma ctrl_ticks_frame [simp]:
  "c_running ((ctrl_tick ^^ n) c) = c_running c"
  "c_gain ((ctrl_tick ^^ n) c) = c_gain c"
  by (induction n) simp_all

text \<open>
  The closed form of \<open>n\<close> ticks from a position in \<open>[0, 100]\<close>: the distance to
  the setpoint is multiplied by \<open>max(0, 1 - g)\<close> at each tick, and one crossing is
  counted, at the first tick, exactly when the gain is at least one and the box was
  below the setpoint.
\<close>

lemma ctrl_ticks_closed_form:
  assumes p0: "0 \<le> c_position c" and p100: "c_position c \<le> 100" and g0: "0 \<le> c_gain c"
  shows "100 - c_position ((ctrl_tick ^^ n) c) =
           (100 - c_position c) * max 0 (1 - c_gain c) ^ n \<and>
         c_crossings ((ctrl_tick ^^ n) c) =
           c_crossings c + (if 0 < n \<and> c_position c < 100 \<and> 1 \<le> c_gain c then 1 else 0)"
proof (induction n)
  case 0
  show ?case by simp
next
  case (Suc n)
  let ?c = "(ctrl_tick ^^ n) c"
  have b: "0 \<le> c_position ?c \<and> c_position ?c \<le> 100"
    using p0 p100 ctrl_tick_bounds by (cases n) simp_all
  then have dist: "100 - c_position (ctrl_tick ?c) = (100 - c_position ?c) * max 0 (1 - c_gain c)"
    using ctrl_tick_dist [of ?c] g0 by simp
  have cross: "c_crossings (ctrl_tick ?c) =
      c_crossings ?c + (if c_position ?c < 100 \<and> 1 \<le> c_gain c then 1 else 0)"
    using ctrl_tick_crossings [of ?c] b by simp
  have "c_position ?c < 100 \<and> 1 \<le> c_gain c \<longleftrightarrow> n = 0 \<and> c_position c < 100 \<and> 1 \<le> c_gain c"
  proof (cases "1 \<le> c_gain c \<and> 0 < n")
    case True
    then have "max 0 (1 - c_gain c) ^ n = 0" by (simp add: max_def)
    with Suc.IH True show ?thesis by (auto simp: power_0_left)
  next
    case False
    then show ?thesis by auto
  qed
  with Suc.IH dist cross show ?case by simp
qed

section \<open>Runs of ticks of the implementation\<close>

lemma abs_app_bounds:
  assumes "reachable s"
  shows "0 \<le> c_position (abs_app s) \<and> c_position (abs_app s) \<le> 100 \<and> 0 \<le> c_gain (abs_app s)"
  using reachable_bounds [OF assms] reachable_gain_range [OF assms]
  by (auto simp: state_bounds_def abs_app_def Let_def)

text \<open>
  From a reachable running state, \<open>n\<close> timer ticks always happen (the interval stays
  live) and follow the closed form of the abstract controller.
\<close>

lemma run_ticks_closed_form:
  assumes r: "reachable s" and running: "isRunning (gameState s)"
  shows "\<exists>t. run s (replicate n Tick) = Some t \<and> reachable t \<and>
           pGain (gameState t) = pGain (gameState s) \<and>
           100 - position (gameState t) =
             (100 - position (gameState s)) * max 0 (1 - pGain (gameState s)) ^ n \<and>
           oscillationCount t = oscillationCount s +
             (if 0 < n \<and> position (gameState s) < 100 \<and> 1 \<le> pGain (gameState s) then 1 else 0)"
proof -
  from running have "ctrl_run (abs_app s) (replicate n Tick) = Some ((ctrl_tick ^^ n) (abs_app s))"
    by (simp add: ctrl_run_ticks abs_app_def)
  with abs_app_run [OF r, of "replicate n Tick"] obtain t
    where t: "run s (replicate n Tick) = Some t" and a: "abs_app t = (ctrl_tick ^^ n) (abs_app s)"
    by (cases "run s (replicate n Tick)") auto
  from abs_app_bounds [OF r] have
    "100 - c_position ((ctrl_tick ^^ n) (abs_app s)) =
       (100 - c_position (abs_app s)) * max 0 (1 - c_gain (abs_app s)) ^ n \<and>
     c_crossings ((ctrl_tick ^^ n) (abs_app s)) = c_crossings (abs_app s) +
       (if 0 < n \<and> c_position (abs_app s) < 100 \<and> 1 \<le> c_gain (abs_app s) then 1 else 0)"
    by (intro ctrl_ticks_closed_form) auto
  moreover have "c_gain (abs_app t) = c_gain (abs_app s)"
    using arg_cong [OF a, of c_gain] by simp
  moreover have "reachable t" using r t by (rule run_reachable)
  ultimately show ?thesis using t arg_cong [OF a, of c_position] arg_cong [OF a, of c_crossings]
    by (auto simp: abs_app_def)
qed

section \<open>The refinement\<close>

text \<open>
  C2. Refinement: every session from mounting, seen through \<open>abs_app\<close>, is the
  session of the abstract controller from its initial state. The same events are
  possible, and the positions, gains, running flags, crossing counts and overshoot
  latches agree after every event. The closure locals and the effect re-runs of the
  implementation add no behaviour of their own.
\<close>

theorem sessions_refine_ctrl:
  "map_option abs_app (run initial_app es) = ctrl_run ctrl_init es"
proof -
  have "abs_app initial_app = ctrl_init"
    by (simp add: abs_app_def initial_app_def initial_game_state_def ctrl_init_def)
  with abs_app_run [OF reachable.init, of es] show ?thesis by simp
qed

end
