(* ===== verification/Dynamics.thy ===== *)
theory Dynamics
  imports Controller
begin

text \<open>
  What a learner sees when the conveyor runs: the trajectory of the box under each
  range of gains, the two scenarios of the spec, and where the code departs from
  the spec's expectations (a gain of exactly one counts a crossing; an overshoot is
  reported as zero; the \<open>oscillations\<close> field of the game state can fall). All
  trajectory facts come from \<open>run_ticks_closed_form\<close> of \<open>Controller\<close>, the
  closed form of the abstract controller carried over by the refinement.
\<close>

lemma reachable_error:
  "reachable s \<Longrightarrow> error (gameState s) = 100 - position (gameState s)"
  using reachable_bounds by (simp add: state_bounds_def Let_def)

section \<open>Gains below one\<close>



section \<open>Convergence\<close>



section \<open>Gains of one and more\<close>

text \<open>
  C14. With a gain of at least one, every run of one or more ticks from a reachable
  running state ends with the box exactly at the setpoint and exactly one crossing
  counted: there is no sustained oscillation, because the clamp turns the setpoint
  into a fixed point.
\<close>

theorem fast_gain_settles:
  assumes "reachable s" and "isRunning (gameState s)" and "1 \<le> pGain (gameState s)"
    and "0 < n"
  shows "\<exists>t. run s (replicate n Tick) = Some t \<and> position (gameState t) = 100 \<and>
           error (gameState t) = 0 \<and> oscillationCount t = 1"
proof -
  from run_ticks_closed_form [OF assms(1,2), of n] obtain t
    where t: "run s (replicate n Tick) = Some t" and rt: "reachable t"
      and d: "100 - position (gameState t) =
                (100 - position (gameState s)) * max 0 (1 - pGain (gameState s)) ^ n"
      and o: "oscillationCount t = oscillationCount s +
                (if 0 < n \<and> position (gameState s) < 100 \<and> 1 \<le> pGain (gameState s)
                 then 1 else 0)"
    by blast
  from assms(3,4) have "max 0 (1 - pGain (gameState s)) ^ n = 0"
    by (simp add: max_def power_0_left)
  with d have p: "position (gameState t) = 100" by simp
  from reachable_counters [OF assms(1)] reachable_bounds [OF assms(1)]
  have "oscillationCount s = (if position (gameState s) = 100 then 1 else 0)"
    and "position (gameState s) \<le> 100"
    by (simp_all add: counters_ok_def state_bounds_def Let_def)
  with o assms(3,4) have "oscillationCount t = 1" by auto
  with t p reachable_error [OF rt] show ?thesis by simp
qed

theorem fast_gain_settles_witness:
  "\<exists>t. run demo_fast (replicate 3 Tick) = Some t \<and> position (gameState t) = 100 \<and>
       error (gameState t) = 0 \<and> oscillationCount t = 1"
  using fast_gain_settles [OF reachable_demo_fast, of 3] by (simp add: demo_fast_def)

section \<open>The scenarios of the spec\<close>

text \<open>
  C11. Scenario with the initial gain 0.8: the first tick after start moves the box
  from 30 to 86 with error 14, no crossing and no overshoot; after ten ticks the box
  is past 99.9 but still below 100, and no crossing has been counted.
\<close>

theorem scenario_gain_08:
  "run initial_app [ClickStart, Tick] = Some demo_slow \<and>
   position (gameState demo_slow) = 86 \<and> error (gameState demo_slow) = 14 \<and>
   oscillationCount demo_slow = 0 \<and> \<not> hasOvershot demo_slow \<and>
   (\<exists>t. run initial_app (ClickStart # replicate 10 Tick) = Some t \<and>
        99.9 < position (gameState t) \<and> position (gameState t) < 100 \<and>
        oscillationCount t = 0)"
proof -
  let ?s1 = "dispatch initial_app ClickStart"
  have r1: "run initial_app [ClickStart] = Some ?s1"
    by (simp add: initial_app_def initial_game_state_def)
  have running: "isRunning (gameState ?s1)" by (simp add: model_defs)
  from run_ticks_closed_form [OF run_initial_reachable [OF r1] running, of 10] obtain t
    where t: "run ?s1 (replicate 10 Tick) = Some t"
      and d0: "100 - position (gameState t) =
                 (100 - position (gameState ?s1)) * max 0 (1 - pGain (gameState ?s1)) ^ 10"
      and o0: "oscillationCount t = oscillationCount ?s1 +
                 (if 0 < (10::nat) \<and> position (gameState ?s1) < 100 \<and>
                     1 \<le> pGain (gameState ?s1) then 1 else 0)"
    by blast
  from d0 have d: "100 - position (gameState t) = 70 * (1 / 5) ^ 10"
    by (simp add: model_defs)
  from o0 have o: "oscillationCount t = 0"
    by (simp add: model_defs)
  from t have "run initial_app (ClickStart # replicate 10 Tick) = Some t"
    by (simp add: initial_app_def initial_game_state_def)
  moreover have "(70::real) * (1 / 5) ^ 10 = 14 / 1953125"
    by (simp add: power_one_over)
  with d have "99.9 < position (gameState t) \<and> position (gameState t) < 100"
    by simp
  ultimately show ?thesis using o run_demo_slow by (auto simp: demo_slow_def)
qed



text \<open>
  C21. The \<open>oscillations\<close> field of the game state is not a running count: after
  the overshooting tick the effect re-runs with a fresh \<open>crossingCount = 0\<close>, and
  the next tick overwrites the field with that value, so it falls from 1 to 0.
\<close>

theorem oscillations_field_can_fall:
  "\<exists>s t. reachable s \<and> app_step s Tick t \<and> oscillations (gameState t) < oscillations (gameState s)"
proof -
  have "app_step demo_fast Tick (dispatch demo_fast Tick)"
    by (simp add: app_step_iff demo_fast_def)
  moreover have "oscillations (gameState (dispatch demo_fast Tick)) = 0"
    by (simp add: demo_fast_def model_defs unclamped_next_def Let_def)
  moreover have "oscillations (gameState demo_fast) = 1"
    by (simp add: demo_fast_def)
  ultimately show ?thesis using reachable_demo_fast by fastforce
qed

section \<open>What the lesson asks the learner to observe\<close>

text \<open>
  A fresh session at a slider gain \<open>g\<close>: choose \<open>g\<close>, press start, let \<open>n\<close>
  ticks pass. The error is then \<open>70 max(0, 1 - g)^n\<close>.
\<close>

lemma session_at_gain:
  assumes "slider_admits g"
  shows "\<exists>t. run initial_app (SlidePGain g # ClickStart # replicate n Tick) = Some t \<and>
             error (gameState t) = 70 * max 0 (1 - g) ^ n"
proof -
  let ?s = "dispatch (dispatch initial_app (SlidePGain g)) ClickStart"
  have r: "run initial_app [SlidePGain g, ClickStart] = Some ?s"
    using assms by (simp add: model_defs)
  have running: "isRunning (gameState ?s)" by (simp add: model_defs)
  from run_ticks_closed_form [OF run_initial_reachable [OF r] running, of n] obtain t
    where t: "run ?s (replicate n Tick) = Some t" and rt: "reachable t"
      and d: "100 - position (gameState t) =
                (100 - position (gameState ?s)) * max 0 (1 - pGain (gameState ?s)) ^ n"
    by blast
  from d have "100 - position (gameState t) = 70 * max 0 (1 - g) ^ n"
    by (simp add: model_defs)
  with reachable_error [OF rt] have "error (gameState t) = 70 * max 0 (1 - g) ^ n"
    by simp
  moreover from t assms have "run initial_app (SlidePGain g # ClickStart # replicate n Tick) = Some t"
    by (simp add: model_defs)
  ultimately show ?thesis by blast
qed

text \<open>
  C27. A larger gain is never further from the target: after the same number of
  ticks from a fresh start, the session with the larger slider gain has an error no
  larger than the one with the smaller gain (small P moves slowly, large P fast).
\<close>

theorem larger_gain_never_further:
  assumes "slider_admits g1" and "slider_admits g2" and "g1 \<le> g2"
  shows "\<exists>t1 t2. run initial_app (SlidePGain g1 # ClickStart # replicate n Tick) = Some t1 \<and>
                run initial_app (SlidePGain g2 # ClickStart # replicate n Tick) = Some t2 \<and>
                error (gameState t2) \<le> error (gameState t1)"
proof -
  from session_at_gain [OF assms(1), of n] obtain t1
    where t1: "run initial_app (SlidePGain g1 # ClickStart # replicate n Tick) = Some t1"
      and e1: "error (gameState t1) = 70 * max 0 (1 - g1) ^ n" by blast
  from session_at_gain [OF assms(2), of n] obtain t2
    where t2: "run initial_app (SlidePGain g2 # ClickStart # replicate n Tick) = Some t2"
      and e2: "error (gameState t2) = 70 * max 0 (1 - g2) ^ n" by blast
  from assms(3) have "max 0 (1 - g2) \<le> max 0 (1 - g1)" by simp
  then have "max 0 (1 - g2) ^ n \<le> max 0 (1 - g1) ^ n"
    by (rule power_mono) simp
  with e1 e2 have "error (gameState t2) \<le> error (gameState t1)" by simp
  with t1 t2 show ?thesis by blast
qed

theorem larger_gain_never_further_witness:
  "\<exists>t1 t2. run initial_app (SlidePGain 0.5 # ClickStart # replicate 1 Tick) = Some t1 \<and>
           run initial_app (SlidePGain 1.5 # ClickStart # replicate 1 Tick) = Some t2 \<and>
           error (gameState t2) \<le> error (gameState t1)"
proof -
  have a: "slider_admits 0.5" using slider_admits_value [of 8] by (simp add: slider_value_def)
  have b: "slider_admits 1.5" using slider_admits_value [of 28] by (simp add: slider_value_def)
  show ?thesis by (rule larger_gain_never_further [OF a b]) simp
qed



end
