(* ===== verification/View.thy ===== *)
theory View
  imports Invariants
begin

text \<open>
  The rendering of \<^verbatim>\<open>PControlGame\<close> as far as it carries behaviour: the values the
  page shows and the widgets it disables (\<^verbatim>\<open>App.js\<close>, lines 345 to 417), the
  configuration of the spring that animates the box (lines 262 to 268), and the
  geometry of the conveyor belt, the target marker and the cargo box (lines 122 to
  172). The texts the numbers are printed as are in \<open>Numbers\<close>; colours and the
  spring's physics are not modelled; the box's \<open>left\<close> is the spring's target,
  the value the animation settles on. The Chinese labels of the start button are named by constructors.
\<close>

datatype start_label = LabelRunning | LabelStart

record view =
  slider_shown :: real
  slider_disabled :: bool
  shown_position :: real
  shown_error :: real
  shown_oscillations :: nat
  cargo_left :: real
  start_disabled :: bool
  shown_start_label :: start_label

definition render :: "app \<Rightarrow> view" where
  "render s =
     (let gs = gameState s
      in \<lparr>slider_shown = pGain gs, slider_disabled = isRunning gs,
          shown_position = position gs, shown_error = \<bar>error gs\<bar>,
          shown_oscillations = oscillationCount s, cargo_left = position gs,
          start_disabled = isRunning gs,
          shown_start_label = (if isRunning gs then LabelRunning else LabelStart)\<rparr>)"

record spring_config =
  tension :: real
  friction :: real

definition spring_for :: "real \<Rightarrow> spring_config" where
  "spring_for g = \<lparr>tension = 100 + g * 50, friction = 10 + g * 5\<rparr>"

text \<open>
  The target marker is drawn at \<open>left: 80%\<close> of the belt and labelled as the
  100 cm target; the box is 70 px wide, positioned absolutely at
  \<open>left: position%\<close> inside the belt, which hides what overflows it. For a belt whose
  padding box is \<open>w\<close> pixels wide, the visible width of the box is the overlap of
  \<open>[x, x + 70]\<close> with \<open>[0, w]\<close>, where \<open>x = left / 100 * w\<close>.
\<close>

definition target_marker_left :: real where
  "target_marker_left = 80"

definition cargo_box_width :: real where
  "cargo_box_width = 70"

definition visible_box_width :: "real \<Rightarrow> real \<Rightarrow> real" where
  "visible_box_width w left =
     (let x = left / 100 * w in max 0 (min (x + cargo_box_width) w - max x 0))"

text \<open>
  For every gain a session can reach, the spring that animates the box has
  tension in \<open>[105, 200]\<close> and friction in \<open>[10.5, 20]\<close>.
\<close>

theorem spring_config_bounds:
  assumes "reachable s"
  shows "105 \<le> tension (spring_for (pGain (gameState s))) \<and>
         tension (spring_for (pGain (gameState s))) \<le> 200 \<and>
         21 / 2 \<le> friction (spring_for (pGain (gameState s))) \<and>
         friction (spring_for (pGain (gameState s))) \<le> 20"
  using reachable_gain_range [OF assms] by (simp add: spring_for_def)

theorem spring_config_bounds_witness:
  "tension (spring_for (pGain (gameState demo_fast))) = 200 \<and>
   friction (spring_for (pGain (gameState demo_fast))) = 20"
  using spring_config_bounds [OF reachable_demo_fast]
  by (simp add: spring_for_def demo_fast_def)

text \<open>
  C19. When the box has reached the setpoint it is drawn at \<open>left: 100%\<close>, past the
  right edge of the belt, so none of it is visible, whatever the belt's width; the
  marker that is labelled as the 100 cm target sits at 80%.
\<close>

theorem box_hidden_at_setpoint:
  assumes "reachable s" and "position (gameState s) = 100" and "0 < w"
  shows "cargo_left (render s) = 100 \<and> visible_box_width w (cargo_left (render s)) = 0 \<and>
         cargo_left (render s) \<noteq> target_marker_left"
  using assms
  by (simp add: render_def visible_box_width_def cargo_box_width_def target_marker_left_def Let_def)

theorem box_hidden_at_setpoint_witness:
  "cargo_left (render demo_fast) = 100 \<and> visible_box_width 734 (cargo_left (render demo_fast)) = 0"
  using box_hidden_at_setpoint [OF reachable_demo_fast, of 734] by (simp add: demo_fast_def render_def)

text \<open>
  The stats panel shows the distance to the setpoint (the shown error is
  \<open>100 - position\<close> and never negative), and the start button and the slider are
  disabled exactly while a timer tick can fire.
\<close>

theorem stats_show_state:
  assumes "reachable s"
  shows "shown_error (render s) = 100 - shown_position (render s) \<and> 0 \<le> shown_error (render s) \<and>
         (start_disabled (render s) \<longleftrightarrow> enabled s Tick) \<and>
         (slider_disabled (render s) \<longleftrightarrow> enabled s Tick)"
  using reachable_bounds [OF assms] reachable_sync [OF assms]
  by (auto simp: render_def state_bounds_def effect_sync_def Let_def split: option.splits)

theorem stats_show_state_witness:
  "shown_error (render demo_slow) = 14 \<and> start_disabled (render demo_slow) \<and>
   enabled demo_slow Tick"
  using stats_show_state [OF reachable_demo_slow] by (simp add: render_def demo_slow_def)

end
