(* ===== verification/Numbers.thy ===== *)
theory Numbers
  imports View
begin

text \<open>
  The number formatting and parsing behind the page's labels and the slider. The
  gain label shows \<open>gameState.pGain.toFixed(2)\<close> (line 357); the stats show
  \<open>gameState.position.toFixed(1)\<close> and \<open>Math.abs(gameState.error).toFixed(1)\<close>
  (lines 387 and 391) and the counter as a number (line 395). The slider's value
  reaches \<open>handlePGainChange\<close> as a string, which \<open>parseFloat\<close> reads back
  (line 341). \<open>js_toFixed\<close> follows ECMAScript's \<open>Number.prototype.toFixed\<close> and
  \<open>js_parseFloat\<close> its \<open>parseFloat\<close>, over real numbers. The branches the page
  never reaches are kept as values: \<open>RangeError\<close> for more than 100 digits, and
  \<open>UsesToString\<close> for magnitudes of at least \<open>10^21\<close>, where \<open>toFixed\<close> falls
  back to exponent notation, which is not modelled. Only ASCII white space is
  skipped by \<open>js_parseFloat\<close>.
\<close>

datatype js_number = JNum real | JNaN | JInfinity bool

datatype fixed_out = FixedStr string | RangeError | UsesToString

section \<open>Digits\<close>

definition digit_char :: "nat \<Rightarrow> char" where
  "digit_char d = char_of (48 + d)"

fun digit_val :: "char \<Rightarrow> nat option" where
  "digit_val c = (let n = of_char c :: nat in if 48 \<le> n \<and> n \<le> 57 then Some (n - 48) else None)"

fun nat_digits :: "nat \<Rightarrow> nat list" where
  "nat_digits n = (if n < 10 then [n] else nat_digits (n div 10) @ [n mod 10])"

declare nat_digits.simps [simp del]

definition js_digits :: "nat \<Rightarrow> string" where
  "js_digits n = map digit_char (nat_digits n)"

definition sign_str :: "bool \<Rightarrow> string" where
  "sign_str neg = (if neg then ''-'' else [])"

definition digits_value :: "nat list \<Rightarrow> nat" where
  "digits_value ds = foldl (\<lambda>a d. 10 * a + d) 0 ds"

section \<open>toFixed\<close>

text \<open>
  \<open>Number.prototype.toFixed(f)\<close>: the sign, then the integer \<open>n\<close> nearest to
  \<open>x 10^f\<close> (the larger one on a tie), written in decimal, left-padded with zeros
  to more than \<open>f\<close> digits, with a point inserted before the last \<open>f\<close>.
\<close>

definition insert_point :: "nat \<Rightarrow> string \<Rightarrow> string" where
  "insert_point f m =
     (if f = 0 then m
      else let m2 = (if length m \<le> f then replicate (f + 1 - length m) (CHR ''0'') @ m else m)
           in take (length m2 - f) m2 @ ''.'' @ drop (length m2 - f) m2)"

text \<open>The zero padding of \<open>insert_point\<close>, on digit values.\<close>

definition pad_digits :: "nat \<Rightarrow> nat list \<Rightarrow> nat list" where
  "pad_digits f ds = (if length ds \<le> f then replicate (f + 1 - length ds) 0 @ ds else ds)"

definition js_toFixed :: "nat \<Rightarrow> real \<Rightarrow> fixed_out" where
  "js_toFixed f x =
     (if 100 < f then RangeError
      else if 10 ^ 21 \<le> \<bar>x\<bar> then UsesToString
      else let s = sign_str (x < 0);
               n = nat \<lfloor>\<bar>x\<bar> * 10 ^ f + 1 / 2\<rfloor>;
               m = (if n = 0 then ''0'' else js_digits n)
           in FixedStr (s @ insert_point f m))"

section \<open>parseFloat\<close>

definition js_space :: "char \<Rightarrow> bool" where
  "js_space c \<longleftrightarrow> of_char c \<in> {9, 10, 11, 12, 13, 32 :: nat}"

fun take_sign :: "string \<Rightarrow> bool \<times> string" where
  "take_sign (c # cs) =
     (if c = CHR ''-'' then (True, cs) else if c = CHR ''+'' then (False, cs) else (False, c # cs))"
| "take_sign [] = (False, [])"

fun span_digits :: "string \<Rightarrow> nat list \<times> string" where
  "span_digits [] = ([], [])"
| "span_digits (c # cs) =
     (case digit_val c of
        None \<Rightarrow> ([], c # cs)
      | Some d \<Rightarrow> (case span_digits cs of (ds, r) \<Rightarrow> (d # ds, r)))"

definition exp_part :: "string \<Rightarrow> int" where
  "exp_part s =
     (case s of
        [] \<Rightarrow> 0
      | c # r \<Rightarrow>
          (if c = CHR ''e'' \<or> c = CHR ''E''
           then (case take_sign r of (neg, r2) \<Rightarrow>
                  (case span_digits r2 of (ds, _) \<Rightarrow>
                     (if ds = [] then 0
                      else if neg then - int (digits_value ds) else int (digits_value ds))))
           else 0))"

definition js_parseFloat :: "string \<Rightarrow> js_number" where
  "js_parseFloat str =
     (case take_sign (dropWhile js_space str) of (neg, s2) \<Rightarrow>
       if take 8 s2 = ''Infinity'' then JInfinity (\<not> neg)
       else (case span_digits s2 of (ip, s3) \<Rightarrow>
         (case (case s3 of c # r \<Rightarrow> if c = CHR ''.'' then span_digits r else ([], s3)
                         | [] \<Rightarrow> ([], [])) of (fp, s4) \<Rightarrow>
           if ip = [] \<and> fp = [] then JNaN
           else let m = real (digits_value (ip @ fp)) / 10 ^ length fp;
                    e = exp_part s4;
                    v = (if 0 \<le> e then m * 10 ^ nat e else m / 10 ^ nat (- e))
                in JNum (if neg then - v else v))))"

section \<open>The slider's strings and the page's labels\<close>


text \<open>
  The texts the page prints: the gain label \<open>gameState.pGain.toFixed(2)\<close>
  (line 357), the position \<open>gameState.position.toFixed(1)\<close> (line 387), the
  error \<open>Math.abs(gameState.error).toFixed(1)\<close> (line 391) and the counter
  \<open>{oscillationCount}\<close> (line 395), which React prints as the number's decimal
  string. They format the values of \<^const>\<open>render\<close>.
\<close>

record stats_labels =
  gain_text :: fixed_out
  position_text :: fixed_out
  error_text :: fixed_out
  count_text :: string

definition labels :: "app \<Rightarrow> stats_labels" where
  "labels s =
     (let v = render s
      in \<lparr>gain_text = js_toFixed 2 (slider_shown v), position_text = js_toFixed 1 (shown_position v),
          error_text = js_toFixed 1 (shown_error v), count_text = js_digits (shown_oscillations v)\<rparr>)"

text \<open>
  The example session of the labels: gain 0.5 (the slider's ninth step), start,
  three ticks. The box is at 91.25 and the error is 8.75.
\<close>

definition demo_half :: app where
  "demo_half =
     \<lparr>gameState = \<lparr>position = 91.25, error = 8.75, isRunning = True, pGain = 0.5,
                   overshoot = 0, oscillations = 0\<rparr>,
      oscillationCount = 0, hasOvershot = False,
      gameInterval = Some \<lparr>lastPosition = 91.25, crossingCount = 0, seenOvershot = False\<rparr>,
      effectDeps = (True, 0.5, False)\<rparr>"

section \<open>The digit characters\<close>

lemma digit_char_simps [simp]:
  "digit_char 0 = CHR ''0''" "digit_char (Suc 0) = CHR ''1''" "digit_char 2 = CHR ''2''"
  "digit_char 3 = CHR ''3''" "digit_char 4 = CHR ''4''" "digit_char 5 = CHR ''5''"
  "digit_char 6 = CHR ''6''" "digit_char 7 = CHR ''7''" "digit_char 8 = CHR ''8''"
  "digit_char 9 = CHR ''9''"
  unfolding digit_char_def by code_simp+

section \<open>Reading digit strings back\<close>

lemma digit_val_digit_char [simp]: "d < 10 \<Longrightarrow> digit_val (digit_char d) = Some d"
  by (simp add: digit_char_def of_char_of)

lemma digit_char_not_space [simp]: "d < 10 \<Longrightarrow> \<not> js_space (digit_char d)"
  by (auto simp: digit_char_def js_space_def of_char_of)

lemma digit_char_not_sign [simp]:
  "d < 10 \<Longrightarrow> digit_char d \<noteq> CHR ''-''" "d < 10 \<Longrightarrow> digit_char d \<noteq> CHR ''+''"
  "d < 10 \<Longrightarrow> digit_char d \<noteq> CHR ''I''"
  by (auto dest: arg_cong [of _ _ "\<lambda>c. of_char c :: nat"] simp: digit_char_def of_char_of)

lemma nat_digits_small: "d \<in> set (nat_digits n) \<Longrightarrow> d < 10"
proof (induction n rule: nat_digits.induct)
  case (1 n)
  then show ?case
    by (cases "n < 10") (auto simp: nat_digits.simps [of n])
qed

lemma nat_digits_nonempty [simp]: "nat_digits n \<noteq> []"
  by (subst nat_digits.simps) simp

lemma digits_value_snoc [simp]: "digits_value (xs @ [d]) = 10 * digits_value xs + d"
  by (simp add: digits_value_def)

lemma digits_value_nat_digits [simp]: "digits_value (nat_digits n) = n"
proof (induction n rule: nat_digits.induct)
  case (1 n)
  then show ?case
    by (cases "n < 10") (simp_all add: nat_digits.simps [of n] digits_value_def)
qed

lemma digits_value_zeros [simp]: "digits_value (replicate k 0 @ ds) = digits_value ds"
  by (induction k) (simp_all add: digits_value_def)

lemma span_digits_digits:
  assumes "\<forall>d \<in> set ds. d < 10" and "\<forall>c r'. r = c # r' \<longrightarrow> digit_val c = None"
  shows "span_digits (map digit_char ds @ r) = (ds, r)"
  using assms
proof (induction ds)
  case Nil
  then show ?case by (cases r) (auto simp del: digit_val.simps)
qed (auto simp del: digit_val.simps)

lemma minus_not_space: "\<not> js_space (CHR ''-'')"
  by (simp add: js_space_def)

lemma digits_prefix_simps [simp]:
  assumes "a < 10"
  shows "dropWhile js_space (digit_char a # r) = digit_char a # r"
    and "take_sign (digit_char a # r) = (False, digit_char a # r)"
    and "take 8 (digit_char a # r) \<noteq> ''Infinity''"
  using assms by simp_all

lemma parseFloat_digits:
  assumes "\<forall>d \<in> set A. d < 10" and "A \<noteq> []"
  shows "js_parseFloat (sign_str neg @ map digit_char A) =
           JNum (if neg then - real (digits_value A) else real (digits_value A))"
proof -
  obtain a A' where A: "A = a # A'" using assms(2) by (cases A) auto
  have sp: "span_digits (map digit_char A @ []) = (A, [])"
    using assms(1) by (intro span_digits_digits) simp_all
  show ?thesis
    using assms(1) sp unfolding A by (cases neg) (simp_all add: js_parseFloat_def exp_part_def sign_str_def minus_not_space)
qed

lemma parseFloat_digits_point:
  assumes "\<forall>d \<in> set A. d < 10" and "\<forall>d \<in> set B. d < 10" and "A \<noteq> []"
  shows "js_parseFloat (sign_str neg @ map digit_char A @ CHR ''.'' # map digit_char B) =
           JNum (if neg then - (real (digits_value (A @ B)) / 10 ^ length B)
                 else real (digits_value (A @ B)) / 10 ^ length B)"
proof -
  obtain a A' where A: "A = a # A'" using assms(3) by (cases A) auto
  have sp1: "span_digits (map digit_char A @ CHR ''.'' # map digit_char B) =
               (A, CHR ''.'' # map digit_char B)"
    using assms(1) by (intro span_digits_digits) simp_all
  have sp2: "span_digits (map digit_char B @ []) = (B, [])"
    using assms(2) by (intro span_digits_digits) simp_all
  show ?thesis
    using assms(1) sp1 sp2 unfolding A by (cases neg) (simp_all add: js_parseFloat_def exp_part_def sign_str_def minus_not_space)
qed

lemma pad_digits_props:
  "f < length (pad_digits f ds)" "digits_value (pad_digits f ds) = digits_value ds"
  "(\<forall>d \<in> set ds. d < 10) \<Longrightarrow> \<forall>d \<in> set (pad_digits f ds). d < 10"
  by (auto simp: pad_digits_def)

lemma insert_point_digits:
  assumes "0 < f"
  shows "insert_point f (map digit_char ds) =
           map digit_char (take (length (pad_digits f ds) - f) (pad_digits f ds)) @
           CHR ''.'' # map digit_char (drop (length (pad_digits f ds) - f) (pad_digits f ds))"
  using assms by (simp add: insert_point_def pad_digits_def Let_def take_map drop_map map_replicate)

lemma parseFloat_insert_point:
  assumes "\<forall>d \<in> set ds. d < 10" and "ds \<noteq> []"
  shows "js_parseFloat (sign_str neg @ insert_point f (map digit_char ds)) =
           JNum (if neg then - (real (digits_value ds) / 10 ^ f) else real (digits_value ds) / 10 ^ f)"
proof (cases "f = 0")
  case True
  with parseFloat_digits [OF assms, of neg] show ?thesis by (simp add: insert_point_def)
next
  case False
  let ?D = "pad_digits f ds"
  let ?k = "length ?D - f"
  have len: "f < length ?D" and dig: "\<forall>d \<in> set ?D. d < 10"
    using pad_digits_props assms(1) by auto
  then have "\<forall>d \<in> set (take ?k ?D). d < 10" "\<forall>d \<in> set (drop ?k ?D). d < 10"
    "take ?k ?D \<noteq> []" "length (drop ?k ?D) = f"
    by (auto dest: in_set_takeD in_set_dropD)
  from parseFloat_digits_point [OF this(1,2,3), of neg] this(4) False show ?thesis
    by (simp add: insert_point_digits pad_digits_props(2))
qed

lemma js_digits_nonzero: "(if n = 0 then ''0'' else js_digits n) = map digit_char (nat_digits n)"
  by (simp add: js_digits_def nat_digits.simps [of 0])

lemma toFixed_digits:
  assumes "\<bar>x\<bar> < 10 ^ 21" and "f \<le> 100"
  shows "js_toFixed f x =
           FixedStr (sign_str (x < 0) @
             insert_point f (map digit_char (nat_digits (nat \<lfloor>\<bar>x\<bar> * 10 ^ f + 1 / 2\<rfloor>))))"
  using assms by (simp add: js_toFixed_def js_digits_nonzero)

lemma fixed_value_int: "real (nat \<lfloor>\<bar>x\<bar> * 10 ^ f + 1 / 2\<rfloor>) = of_int \<lfloor>\<bar>x\<bar> * 10 ^ f + 1 / 2\<rfloor>"
  by simp

lemma fixed_parse_back:
  "js_parseFloat (sign_str neg @ insert_point f (map digit_char (nat_digits n))) =
     JNum (if neg then - (real n / 10 ^ f) else real n / 10 ^ f)"
  using parseFloat_insert_point [where ds = "nat_digits n"] nat_digits_small by auto

lemma round_half_error:
  fixes y :: real
  shows "\<bar>of_int \<lfloor>y * 10 ^ f + 1 / 2\<rfloor> / 10 ^ f - y\<bar> \<le> 1 / (2 * 10 ^ f)"
proof -
  define a where "a = (of_int \<lfloor>y * 10 ^ f + 1 / 2\<rfloor> :: real)"
  define p where "p = (10 ^ f :: real)"
  have p0: "0 < p" by (simp add: p_def)
  have "y * p - 1 / 2 < a" "a \<le> y * p + 1 / 2"
    unfolding a_def p_def by linarith+
  then have "\<bar>a - y * p\<bar> \<le> 1 / 2"
    by linarith
  then have "\<bar>a - y * p\<bar> / p \<le> (1 / 2) / p"
    using p0 by (intro divide_right_mono) simp_all
  moreover have "a / p - y = (a - y * p) / p"
    using p0 by (simp add: diff_divide_distrib)
  ultimately have "\<bar>a / p - y\<bar> \<le> (1 / 2) / p"
    using p0 by (simp only: abs_div_pos)
  then show ?thesis by (simp add: a_def p_def)
qed

lemma parseFloat_js_digits [simp]: "js_parseFloat (js_digits n) = JNum (real n)"
  using parseFloat_digits [of "nat_digits n" False] nat_digits_small
  by (simp add: js_digits_def sign_str_def)



lemma digits_value_single [simp]: "digits_value [d] = d"
  by (simp add: digits_value_def)

lemma digits_value_pair [simp]: "digits_value [a, b] = 10 * a + b"
  by (simp add: digits_value_def)


lemma nat_digits_hd: "0 < n \<Longrightarrow> 0 < hd (nat_digits n)"
proof (induction n rule: nat_digits.induct)
  case (1 n)
  then show ?case
    by (cases "n < 10") (simp_all add: nat_digits.simps [of n])
qed

lemma label_near:
  assumes "0 \<le> x" and "x < 10 ^ 21"
  shows "\<exists>str v. js_toFixed 1 x = FixedStr str \<and> js_parseFloat str = JNum v \<and> \<bar>v - x\<bar> \<le> 1 / 20"
proof -
  define n where "n = nat \<lfloor>x * 10 + 1 / 2\<rfloor>"
  have "js_toFixed 1 x = FixedStr (insert_point 1 (map digit_char (nat_digits n)))"
    using toFixed_digits [of x 1] assms by (simp add: sign_str_def n_def)
  moreover have "js_parseFloat (insert_point 1 (map digit_char (nat_digits n))) = JNum (real n / 10)"
    using fixed_parse_back [of False 1 n] by (simp add: sign_str_def)
  moreover have "real n = of_int \<lfloor>x * 10 + 1 / 2\<rfloor>"
    using assms(1) by (simp add: n_def)
  then have "\<bar>real n / 10 - x\<bar> \<le> 1 / 20"
    using round_half_error [of x 1] assms(1) by simp
  ultimately show ?thesis by blast
qed

lemma gain_label_exact:
  "k < 39 \<Longrightarrow> \<exists>str. js_toFixed 2 (slider_value k) = FixedStr str \<and> js_parseFloat str = JNum (slider_value k)"
proof -
  have g: "\<bar>slider_value k\<bar> * 10 ^ 2 + 1 / 2 = real (10 + 5 * k) + 1 / 2"
    by (simp add: slider_value_def field_simps)
  have "\<lfloor>real (10 + 5 * k) + 1 / 2 :: real\<rfloor> = int (10 + 5 * k)"
    by (simp add: floor_eq_iff)
  then have n: "nat \<lfloor>\<bar>slider_value k\<bar> * 10 ^ 2 + 1 / 2\<rfloor> = 10 + 5 * k"
    by (simp only: g)
  have sv: "slider_value k = real (10 + 5 * k) / 10 ^ 2"
    by (simp add: slider_value_def field_simps)
  assume "k < 39"
  then have "\<bar>slider_value k\<bar> < 10 ^ 21" "\<not> slider_value k < 0"
    by (simp_all add: slider_value_def)
  with toFixed_digits [of "slider_value k" 2]
  have "js_toFixed 2 (slider_value k) = FixedStr (insert_point 2 (map digit_char (nat_digits (10 + 5 * k))))"
    unfolding n by (simp add: sign_str_def)
  moreover have "js_parseFloat (insert_point 2 (map digit_char (nat_digits (10 + 5 * k)))) =
                   JNum (slider_value k)"
    using fixed_parse_back [of False 2 "10 + 5 * k"] sv by (simp add: sign_str_def)
  ultimately show ?thesis by blast
qed

section \<open>The example session\<close>

lemma slider_admits_half: "slider_admits (1 / 2)"
  unfolding slider_admits_iff by (rule exI [of _ 8]) (simp add: slider_value_def)

lemma run_demo_half: "run initial_app [SlidePGain 0.5, ClickStart, Tick, Tick, Tick] = Some demo_half"
  by (simp add: demo_half_def model_defs unclamped_next_def Let_def slider_admits_half)

section \<open>Properties of the labels\<close>


lemma toFixed_parse_back:
  assumes "\<bar>x\<bar> < 10 ^ 21" and "f \<le> 100"
  shows "\<exists>str. js_toFixed f x = FixedStr str \<and>
           js_parseFloat str =
             JNum ((if x < 0 then -1 else 1) * (of_int \<lfloor>\<bar>x\<bar> * 10 ^ f + 1 / 2\<rfloor> / 10 ^ f))"
  using toFixed_digits [OF assms] fixed_parse_back [of "x < 0" f "nat \<lfloor>\<bar>x\<bar> * 10 ^ f + 1 / 2\<rfloor>"]
    fixed_value_int [of x f]
  by (simp only:) (simp add: sign_str_def)

lemma nat_digits_length: "n < 10 ^ Suc d \<Longrightarrow> length (nat_digits n) \<le> Suc d"
proof (induction n arbitrary: d rule: nat_digits.induct)
  case (1 n)
  show ?case
  proof (cases "n < 10")
    case True
    then show ?thesis by (simp add: nat_digits.simps [of n])
  next
    case False
    with "1.prems" obtain d' where d: "d = Suc d'" by (cases d) auto
    with "1.prems" have "n div 10 < 10 ^ Suc d'" by (simp add: div_less_iff_less_mult mult.commute)
    with "1.IH" [OF False] d False show ?thesis by (simp add: nat_digits.simps [of n])
  qed
qed

lemma toFixed_shape:
  assumes "\<bar>x\<bar> < 10 ^ 21" and "f \<le> 100"
  shows "\<exists>A B. js_toFixed f x =
             FixedStr (sign_str (x < 0) @ map digit_char A @
                       (if f = 0 then [] else CHR ''.'' # map digit_char B)) \<and>
           set (A @ B) \<subseteq> {..<10} \<and> A \<noteq> [] \<and> length B = f \<and> (length A = 1 \<or> 0 < hd A) \<and>
           length A + f = max (f + 1) (length (nat_digits (nat \<lfloor>\<bar>x\<bar> * 10 ^ f + 1 / 2\<rfloor>)))"
proof -
  define n where "n = nat \<lfloor>\<bar>x\<bar> * 10 ^ f + 1 / 2\<rfloor>"
  define ds where "ds = nat_digits n"
  have t: "js_toFixed f x = FixedStr (sign_str (x < 0) @ insert_point f (map digit_char ds))"
    using toFixed_digits [OF assms] by (simp add: n_def ds_def)
  have dig: "set ds \<subseteq> {..<10}" using nat_digits_small by (auto simp: ds_def)
  have lead: "length ds = 1 \<or> 0 < hd ds"
  proof (cases "n = 0")
    case True
    then show ?thesis by (simp add: ds_def nat_digits.simps)
  qed (simp add: ds_def nat_digits_hd)
  show ?thesis
  proof (cases "f = 0")
    case True
    with t dig lead show ?thesis
      unfolding n_def [symmetric] ds_def [symmetric]
      by (intro exI [of _ ds] exI [of _ "[]"]) (simp add: insert_point_def max_def Suc_le_eq ds_def)
  next
    case False
    let ?D = "pad_digits f ds"
    let ?k = "length ?D - f"
    have len: "f < length ?D" and digD: "set ?D \<subseteq> {..<10}"
      using pad_digits_props(1) dig by (auto simp: pad_digits_def)
    have l: "length (take ?k ?D) = 1 \<or> 0 < hd (take ?k ?D)"
    proof (cases "length ds \<le> f")
      case True
      then show ?thesis by (simp add: pad_digits_def)
    next
      case ds: False
      with lead False have "0 < hd ds" by auto
      with ds len show ?thesis by (simp add: pad_digits_def hd_take)
    qed
    have d: "set (take ?k ?D @ drop ?k ?D) \<subseteq> {..<10}" using digD by simp
    have ne: "take ?k ?D \<noteq> []" and lB: "length (drop ?k ?D) = f" using len by auto
    have lA: "length (take ?k ?D) + f = max (f + 1) (length ds)"
      using len by (simp add: pad_digits_def max_def)
    show ?thesis
      unfolding n_def [symmetric] ds_def [symmetric]
      apply (rule exI [of _ "take ?k ?D"], rule exI [of _ "drop ?k ?D"])
      using t False l d ne lB lA by (simp add: insert_point_digits)
  qed
qed

lemma label_shape:
  assumes "0 \<le> x" and "x \<le> 100"
  shows "\<exists>A B. js_toFixed 1 x = FixedStr (map digit_char A @ CHR ''.'' # map digit_char B) \<and>
           set (A @ B) \<subseteq> {..<10} \<and> 1 \<le> length A \<and> length A \<le> 3 \<and> length B = 1 \<and>
           (length A = 1 \<or> 0 < hd A)"
proof -
  have "0 \<le> \<lfloor>x * 10 + 1 / 2\<rfloor>" "\<lfloor>x * 10 + 1 / 2\<rfloor> < 10 ^ 4"
    using assms by (simp_all add: floor_less_iff)
  then have "nat \<lfloor>x * 10 + 1 / 2\<rfloor> < 10 ^ Suc 3" by (simp add: nat_less_iff)
  from nat_digits_length [OF this] have len: "length (nat_digits (nat \<lfloor>x * 10 + 1 / 2\<rfloor>)) \<le> 4"
    by simp
  have "\<bar>x\<bar> < 10 ^ 21" "\<not> x < 0" using assms by simp_all
  from toFixed_shape [OF this(1), of 1] this(2) obtain A B where
    "js_toFixed 1 x = FixedStr (map digit_char A @ CHR ''.'' # map digit_char B)"
    "set (A @ B) \<subseteq> {..<10}" "A \<noteq> []" "length B = 1" "length A = 1 \<or> 0 < hd A"
    "length A + 1 = max 2 (length (nat_digits (nat \<lfloor>x * 10 + 1 / 2\<rfloor>)))"
    using assms(1) by (auto simp: sign_str_def)
  with len show ?thesis
    by (intro exI [of _ A] exI [of _ B]) (auto simp: Suc_le_eq)
qed

lemma gain_shape:
  assumes "k < 39"
  shows "\<exists>a b c. js_toFixed 2 (slider_value k) =
                   FixedStr [digit_char a, CHR ''.'', digit_char b, digit_char c] \<and>
                 a < 10 \<and> b < 10 \<and> c < 10"
proof -
  have g: "\<bar>slider_value k\<bar> * 10 ^ 2 + 1 / 2 = real (10 + 5 * k) + 1 / 2"
    by (simp add: slider_value_def field_simps)
  have "\<lfloor>real (10 + 5 * k) + 1 / 2 :: real\<rfloor> = int (10 + 5 * k)"
    by (simp add: floor_eq_iff)
  then have n: "nat \<lfloor>\<bar>slider_value k\<bar> * 10 ^ 2 + 1 / 2\<rfloor> = 10 + 5 * k"
    by (simp only: g)
  have "10 + 5 * k < 10 ^ Suc 2" using assms by simp
  from nat_digits_length [OF this] have len: "length (nat_digits (10 + 5 * k)) \<le> 3" by simp
  have "\<bar>slider_value k\<bar> < 10 ^ 21" "\<not> slider_value k < 0"
    using assms by (simp_all add: slider_value_def)
  from toFixed_shape [OF this(1), of 2] this(2) obtain A B where
    t: "js_toFixed 2 (slider_value k) = FixedStr (map digit_char A @ CHR ''.'' # map digit_char B)"
    and d: "set (A @ B) \<subseteq> {..<10}" and lB: "length B = 2"
    and lA: "length A + 2 = max 3 (length (nat_digits (10 + 5 * k)))"
    unfolding n by (auto simp: sign_str_def)
  from lA len have "length A = 1" by simp
  then obtain a where A: "A = [a]" by (cases A) auto
  from lB obtain b c where B: "B = [b, c]"
    by (cases B; cases "tl B") auto
  from t d show ?thesis unfolding A B by auto
qed

text \<open>
  C30. The labels read back as the state: in every reachable state \<open>parseFloat\<close>
  of the gain label is the gain exactly, of the position and error labels the
  position and the error rounded to tenths (half up), and of the counter the
  counter.
\<close>

theorem labels_round_trip:
  assumes "reachable s"
  shows "(\<exists>str. gain_text (labels s) = FixedStr str \<and> js_parseFloat str = JNum (pGain (gameState s))) \<and>
         (\<exists>str. position_text (labels s) = FixedStr str \<and>
                js_parseFloat str = JNum (of_int \<lfloor>position (gameState s) * 10 + 1 / 2\<rfloor> / 10)) \<and>
         (\<exists>str. error_text (labels s) = FixedStr str \<and>
                js_parseFloat str = JNum (of_int \<lfloor>error (gameState s) * 10 + 1 / 2\<rfloor> / 10)) \<and>
         js_parseFloat (count_text (labels s)) = JNum (real (oscillationCount s))"
proof -
  let ?gs = "gameState s"
  have b: "0 \<le> position ?gs" "position ?gs \<le> 100" "error ?gs = 100 - position ?gs"
      and adm: "slider_admits (pGain ?gs)"
    using reachable_bounds [OF assms] by (simp_all add: state_bounds_def Let_def)
  from adm obtain k where "k < 39" "pGain ?gs = slider_value k" by (auto simp: slider_admits_iff)
  with gain_label_exact [of k] have "\<exists>str. gain_text (labels s) = FixedStr str \<and>
      js_parseFloat str = JNum (pGain ?gs)"
    by (simp add: labels_def render_def Let_def)
  moreover have "\<exists>str. position_text (labels s) = FixedStr str \<and>
                   js_parseFloat str = JNum (of_int \<lfloor>position ?gs * 10 + 1 / 2\<rfloor> / 10)"
    using toFixed_parse_back [of "position ?gs" 1] b by (simp add: labels_def render_def Let_def)
  moreover have "\<exists>str. error_text (labels s) = FixedStr str \<and>
                   js_parseFloat str = JNum (of_int \<lfloor>error ?gs * 10 + 1 / 2\<rfloor> / 10)"
    using toFixed_parse_back [of "error ?gs" 1] b by (simp add: labels_def render_def Let_def)
  ultimately show ?thesis by (simp add: labels_def render_def Let_def)
qed

theorem labels_round_trip_witness:
  "(\<exists>str. gain_text (labels demo_half) = FixedStr str \<and> js_parseFloat str = JNum (pGain (gameState demo_half))) \<and>
   (\<exists>str. position_text (labels demo_half) = FixedStr str \<and>
          js_parseFloat str = JNum (of_int \<lfloor>position (gameState demo_half) * 10 + 1 / 2\<rfloor> / 10)) \<and>
   (\<exists>str. error_text (labels demo_half) = FixedStr str \<and>
          js_parseFloat str = JNum (of_int \<lfloor>error (gameState demo_half) * 10 + 1 / 2\<rfloor> / 10)) \<and>
   js_parseFloat (count_text (labels demo_half)) = JNum (real (oscillationCount demo_half))"
  by (rule labels_round_trip [OF run_initial_reachable [OF run_demo_half]])

text \<open>
  C31. In every reachable state the position and error labels read back within
  0.05 of the position and the error, so the two printed numbers add up to within
  0.1 of the setpoint 100.
\<close>

theorem labels_within_a_tenth:
  assumes "reachable s"
  shows "\<exists>ps es p e. position_text (labels s) = FixedStr ps \<and> error_text (labels s) = FixedStr es \<and>
           js_parseFloat ps = JNum p \<and> js_parseFloat es = JNum e \<and>
           \<bar>p - position (gameState s)\<bar> \<le> 1 / 20 \<and> \<bar>e - error (gameState s)\<bar> \<le> 1 / 20 \<and>
           \<bar>p + e - 100\<bar> \<le> 1 / 10"
proof -
  let ?gs = "gameState s"
  have b: "0 \<le> position ?gs" "position ?gs \<le> 100" "error ?gs = 100 - position ?gs"
    using reachable_bounds [OF assms] by (simp_all add: state_bounds_def Let_def)
  obtain ps p where p: "js_toFixed 1 (position ?gs) = FixedStr ps" "js_parseFloat ps = JNum p"
      "\<bar>p - position ?gs\<bar> \<le> 1 / 20"
    using label_near [of "position ?gs"] b by auto
  obtain es e where e: "js_toFixed 1 (error ?gs) = FixedStr es" "js_parseFloat es = JNum e"
      "\<bar>e - error ?gs\<bar> \<le> 1 / 20"
    using label_near [of "error ?gs"] b by auto
  have "\<bar>p + e - 100\<bar> \<le> 1 / 10" using p(3) e(3) b(3) by linarith
  with p e b show ?thesis by (auto simp: labels_def render_def Let_def)
qed

theorem labels_within_a_tenth_witness:
  "\<exists>ps es p e. position_text (labels demo_slow) = FixedStr ps \<and> error_text (labels demo_slow) = FixedStr es \<and>
     js_parseFloat ps = JNum p \<and> js_parseFloat es = JNum e \<and>
     \<bar>p - position (gameState demo_slow)\<bar> \<le> 1 / 20 \<and> \<bar>e - error (gameState demo_slow)\<bar> \<le> 1 / 20 \<and>
     \<bar>p + e - 100\<bar> \<le> 1 / 10"
  by (rule labels_within_a_tenth [OF reachable_demo_slow])

text \<open>
  C32. The labels' format in every reachable state: the gain label is one digit,
  a point and two digits; the position and error labels are one to three digits
  without a leading zero (unless the integer part is 0), a point and one digit;
  none has a sign.
\<close>

theorem labels_format:
  assumes "reachable s"
  shows "(\<exists>a b c. gain_text (labels s) = FixedStr [digit_char a, CHR ''.'', digit_char b, digit_char c] \<and>
                   a < 10 \<and> b < 10 \<and> c < 10) \<and>
         (\<exists>A B. position_text (labels s) = FixedStr (map digit_char A @ CHR ''.'' # map digit_char B) \<and>
                set (A @ B) \<subseteq> {..<10} \<and> 1 \<le> length A \<and> length A \<le> 3 \<and> length B = 1 \<and>
                (length A = 1 \<or> 0 < hd A)) \<and>
         (\<exists>A B. error_text (labels s) = FixedStr (map digit_char A @ CHR ''.'' # map digit_char B) \<and>
                set (A @ B) \<subseteq> {..<10} \<and> 1 \<le> length A \<and> length A \<le> 3 \<and> length B = 1 \<and>
                (length A = 1 \<or> 0 < hd A))"
proof -
  let ?gs = "gameState s"
  have b: "0 \<le> position ?gs" "position ?gs \<le> 100" "error ?gs = 100 - position ?gs"
      and adm: "slider_admits (pGain ?gs)"
    using reachable_bounds [OF assms] by (simp_all add: state_bounds_def Let_def)
  from adm obtain k where "k < 39" "pGain ?gs = slider_value k" by (auto simp: slider_admits_iff)
  with gain_shape [of k] label_shape [of "position ?gs"] label_shape [of "error ?gs"] b
  show ?thesis by (simp add: labels_def render_def Let_def)
qed

theorem labels_format_witness:
  "(\<exists>a b c. gain_text (labels demo_slow) = FixedStr [digit_char a, CHR ''.'', digit_char b, digit_char c] \<and>
             a < 10 \<and> b < 10 \<and> c < 10) \<and>
   (\<exists>A B. position_text (labels demo_slow) = FixedStr (map digit_char A @ CHR ''.'' # map digit_char B) \<and>
          set (A @ B) \<subseteq> {..<10} \<and> 1 \<le> length A \<and> length A \<le> 3 \<and> length B = 1 \<and>
          (length A = 1 \<or> 0 < hd A)) \<and>
   (\<exists>A B. error_text (labels demo_slow) = FixedStr (map digit_char A @ CHR ''.'' # map digit_char B) \<and>
          set (A @ B) \<subseteq> {..<10} \<and> 1 \<le> length A \<and> length A \<le> 3 \<and> length B = 1 \<and>
          (length A = 1 \<or> 0 < hd A))"
  by (rule labels_format [OF reachable_demo_slow])

text \<open>
  C33. Although the state always has \<open>error = 100 - position\<close>, the two labels
  need not add up to 100: at gain 0.5 after three ticks the page prints
  \<open>91.3 cm\<close> and \<open>8.8 cm\<close>, which add up to 100.1, because both values sit on a
  rounding tie and \<open>toFixed\<close> rounds both up.
\<close>

theorem labels_disagree_with_invariant:
  "\<exists>s p e. reachable s \<and> error (gameState s) = 100 - position (gameState s) \<and>
      position_text (labels s) = FixedStr p \<and> error_text (labels s) = FixedStr e \<and>
      p = ''91.3'' \<and> e = ''8.8'' \<and> js_parseFloat p = JNum 91.3 \<and> js_parseFloat e = JNum 8.8"
proof (intro exI conjI)
  show "reachable demo_half" by (rule run_initial_reachable [OF run_demo_half])
  show "position_text (labels demo_half) = FixedStr ''91.3''"
    by (simp add: labels_def render_def demo_half_def js_toFixed_def js_digits_def insert_point_def
        nat_digits.simps sign_str_def)
  show "error_text (labels demo_half) = FixedStr ''8.8''"
    by (simp add: labels_def render_def demo_half_def js_toFixed_def js_digits_def insert_point_def
        nat_digits.simps sign_str_def)
  show "js_parseFloat ''91.3'' = JNum 91.3"
    by (simp add: js_parseFloat_def js_space_def exp_part_def digits_value_def)
  show "js_parseFloat ''8.8'' = JNum 8.8"
    by (simp add: js_parseFloat_def js_space_def exp_part_def digits_value_def)
qed (simp_all add: demo_half_def)

end
