(* ===== verification/Scheduling.thy ===== *)
theory Scheduling
  imports Lifecycle "HOL-Library.While_Combinator"
begin

text \<open>
  How the events of a session are scheduled. Three views of the same code:
  \<^item> a session as a trace of steps, \<open>app_steps\<close>, the relational reading of the
    executable \<open>run\<close> of \<open>Session\<close>;
  \<^item> a finer model of React in which an event's state update and the re-run of
    the effect (the cleanup \<open>clearInterval\<close> and a fresh \<open>setInterval\<close>, lines 271
    to 319) are separate steps. The update is rendered at once, so the
    \<open>disabled\<close> attributes read the new state, but the passive effect is
    flushed later, by a separate \<open>Flush\<close> step, so a timer firing of the old
    interval can come in between. \<open>delayed_reachable\<close> is the set of states
    under every such interleaving;
  \<^item> the timer loop itself: the interval fires every 100 ms for as long as the game
    runs, and \<open>settle\<close> runs it until a firing changes nothing, as a
    \<open>while_option\<close> whose result is \<open>None\<close> when that never happens.
\<close>

section \<open>Sessions as traces\<close>


section \<open>Delayed effect flush\<close>

datatype sched_event = Event ui_event | Flush

text \<open>The state update of an event, without React's commit of the effect.\<close>

fun handle :: "app \<Rightarrow> ui_event \<Rightarrow> app" where
  "handle s Tick = (case gameInterval s of None \<Rightarrow> s | Some c \<Rightarrow> fire_interval c s)"
| "handle s ClickStart = handleStart s"
| "handle s ClickReset = handleReset s"
| "handle s (SlidePGain v) = handlePGainChange v s"

text \<open>
  An event is possible when the page allows it in the rendered (current) state;
  the flush is pending when a dependency differs from the values of the effect's
  last run.
\<close>

fun sched_enabled :: "app \<Rightarrow> sched_event \<Rightarrow> bool" where
  "sched_enabled s (Event e) \<longleftrightarrow> enabled s e"
| "sched_enabled s Flush \<longleftrightarrow> deps s \<noteq> effectDeps s"

fun sched_step :: "app \<Rightarrow> sched_event \<Rightarrow> app" where
  "sched_step s (Event e) = handle s e"
| "sched_step s Flush = run_effect (effect_cleanup s)"

inductive delayed_reachable :: "app \<Rightarrow> bool" where
  init: "delayed_reachable initial_app"
| step: "delayed_reachable s \<Longrightarrow> sched_enabled s e \<Longrightarrow> delayed_reachable (sched_step s e)"

fun sched_run :: "app \<Rightarrow> sched_event list \<Rightarrow> app option" where
  "sched_run s [] = Some s"
| "sched_run s (e # es) = (if sched_enabled s e then sched_run (sched_step s e) es else None)"

section \<open>The timer loop run to quiescence\<close>


section \<open>Two interleavings used as examples\<close>

text \<open>
  Start, flush, reset, and a firing of the old interval before the reset's flush:
  the game is stopped at position 86.
\<close>

definition demo_leak :: app where
  "demo_leak =
     \<lparr>gameState = \<lparr>position = 86, error = 14, isRunning = False, pGain = 0.8,
                   overshoot = 0, oscillations = 0\<rparr>,
      oscillationCount = 0, hasOvershot = False, gameInterval = None,
      effectDeps = (False, 0.8, False)\<rparr>"

text \<open>
  Gain 2, start, and two firings before the flush of the first one's
  \<open>setHasOvershot(true)\<close>: the second firing still sees the unclamped
  \<open>lastPosition = 170\<close> and counts a second crossing.
\<close>

definition demo_double :: app where
  "demo_double =
     \<lparr>gameState = \<lparr>position = 100, error = 0, isRunning = True, pGain = 2,
                   overshoot = 0, oscillations = 2\<rparr>,
      oscillationCount = 2, hasOvershot = True,
      gameInterval = Some \<lparr>lastPosition = 100, crossingCount = 0, seenOvershot = True\<rparr>,
      effectDeps = (True, 2, True)\<rparr>"

section \<open>Traces\<close>



section \<open>The delayed model\<close>




lemma sched_run_reachable:
  "delayed_reachable s \<Longrightarrow> sched_run s es = Some t \<Longrightarrow> delayed_reachable t"
proof (induction es arbitrary: s)
  case (Cons e es)
  then show ?case by (auto intro: delayed_reachable.step split: if_splits)
qed simp

lemma state_bounds_fire:
  assumes "state_bounds s"
  shows "state_bounds (fire_interval c s)"
  using assms js_clamp_bounds [of 0 100 "unclamped_next (gameState s)"]
  by (simp add: state_bounds_def model_defs Let_def)

lemma state_bounds_sched_step:
  assumes "state_bounds s" and "sched_enabled s e"
  shows "state_bounds (sched_step s e)"
proof (cases e)
  case (Event u)
  with assms show ?thesis
    using slider_admits_initial_gain
    by (cases u) (auto simp: state_bounds_fire state_bounds_def model_defs Let_def split: option.splits)
next
  case Flush
  with assms show ?thesis by (simp add: state_bounds_def model_defs Let_def)
qed

lemma delayed_state_bounds: "delayed_reachable s \<Longrightarrow> state_bounds s"
proof (induction rule: delayed_reachable.induct)
  case init
  show ?case using app_inv_initial by (simp add: app_inv_def)
next
  case (step s e)
  from step.IH step.hyps(2) show ?case by (rule state_bounds_sched_step)
qed

lemma sched_run_demo_leak:
  "sched_run initial_app [Event ClickStart, Flush, Event ClickReset, Event Tick, Flush] = Some demo_leak"
  by (simp add: demo_leak_def model_defs unclamped_next_def Let_def)

lemma sched_run_demo_double:
  "sched_run initial_app [Event (SlidePGain 2), Flush, Event ClickStart, Flush, Event Tick, Event Tick, Flush] =
     Some demo_double"
  by (simp add: demo_double_def model_defs unclamped_next_def Let_def slider_admits_2)

section \<open>The timer loop\<close>














section \<open>Properties\<close>

text \<open>
  C34. The bounds hold under every interleaving of state updates, timer firings
  and effect flushes: the position stays in \<open>[0, 100]\<close>, the error is
  \<open>100 - position\<close>, the gain is a slider value and the reported overshoot is 0,
  whether or not React has re-run the effect before the next firing.
\<close>

theorem delayed_bounds_hold:
  assumes "delayed_reachable s"
  shows "0 \<le> position (gameState s) \<and> position (gameState s) \<le> 100 \<and>
         error (gameState s) = 100 - position (gameState s) \<and>
         slider_admits (pGain (gameState s)) \<and> overshoot (gameState s) = 0"
  using delayed_state_bounds [OF assms] by (simp add: state_bounds_def Let_def)

theorem delayed_bounds_hold_witness:
  "0 \<le> position (gameState demo_double) \<and> position (gameState demo_double) \<le> 100 \<and>
   error (gameState demo_double) = 100 - position (gameState demo_double) \<and>
   slider_admits (pGain (gameState demo_double)) \<and> overshoot (gameState demo_double) = 0"
  by (rule delayed_bounds_hold [OF sched_run_reachable [OF delayed_reachable.init sched_run_demo_double]])



text \<open>
  C36. If the effect's flush comes after a timer firing, a reset can leak a tick:
  after start and reset, the old interval fires once more on the reset state and
  the game ends up stopped at position 86. No atomic session reaches that state:
  there every stopped state is freshly reset.
\<close>

theorem leaked_tick_after_reset:
  "\<exists>s. delayed_reachable s \<and> \<not> reachable s \<and> \<not> isRunning (gameState s) \<and>
       position (gameState s) = 86 \<and> gameInterval s = None \<and> effectDeps s = deps s"
proof (intro exI conjI)
  show "delayed_reachable demo_leak"
    by (rule sched_run_reachable [OF delayed_reachable.init sched_run_demo_leak])
  show "\<not> reachable demo_leak"
  proof
    assume "reachable demo_leak"
    then have "stopped_fresh demo_leak" by (rule reachable_stopped_fresh)
    then show False by (simp add: stopped_fresh_def demo_leak_def)
  qed
qed (simp_all add: demo_leak_def deps_def)

text \<open>
  C37. If the effect's flush comes after a timer firing, the crossing counter can
  reach 2: at gain 2 the first firing overshoots to the unclamped 170 and sets
  \<open>hasOvershot\<close>; a second firing of the same interval before the re-run sees
  \<open>lastPosition = 170 > 100\<close> and the clamped 100, and counts a second crossing. In
  every atomic session the counter is at most 1.
\<close>

theorem stale_closure_counts_twice:
  "\<exists>s. delayed_reachable s \<and> \<not> reachable s \<and> oscillationCount s = 2 \<and>
       position (gameState s) = 100 \<and> effectDeps s = deps s"
proof (intro exI conjI)
  show "delayed_reachable demo_double"
    by (rule sched_run_reachable [OF delayed_reachable.init sched_run_demo_double])
  show "\<not> reachable demo_double"
  proof
    assume "reachable demo_double"
    then have "counters_ok demo_double" by (rule reachable_counters)
    then show False by (simp add: counters_ok_def demo_double_def)
  qed
qed (simp_all add: demo_double_def deps_def)




end
