(* ===== verification/Styles.thy ===== *)
theory Styles
  imports Invariants View
begin



datatype hover_target = HoverNone | HoverStart | HoverReset | HoverSlider










end
