(* ===== verification/StrictMode.thy ===== *)
theory StrictMode
  imports Engine
begin

text \<open>
  The updater that the interval passes to \<open>setGameState\<close> (\<^verbatim>\<open>App.js\<close>, lines 278 to
  311) is not pure: it mutates the closure locals \<open>crossingCount\<close> and
  \<open>lastPosition\<close> and calls the setters \<open>setOscillationCount\<close> and
  \<open>setHasOvershot\<close>. Here it is split as the code is written: \<open>tick_updater\<close>
  computes the returned state, the new closure and the list of setter calls in the
  order they are made, and \<open>apply_hooks\<close> performs the calls. One invocation,
  \<open>tick_once\<close>, is the engine's \<open>interval_tick\<close>. React's StrictMode (in
  development builds) calls every state updater twice with the same previous state
  and keeps the second result, while both calls' side effects happen; that is
  \<open>strict_tick\<close>.
\<close>

datatype hook_call = IncOscillationCount | SetOvershot

definition tick_updater ::
  "interval_closure \<Rightarrow> game_state \<Rightarrow> interval_closure \<times> game_state \<times> hook_call list" where
  "tick_updater c prevState =
     (let newPosition = unclamped_next prevState;
          hit = crossed (lastPosition c) newPosition;
          cc = (if hit then Suc (crossingCount c) else crossingCount c);
          calls = (if hit then [IncOscillationCount] else []) @
                  (if newPosition > 100 \<and> \<not> seenOvershot c then [SetOvershot] else []);
          clamped = js_clamp 0 100 newPosition;
          gs = prevState\<lparr>position := clamped, error := 100 - clamped, oscillations := cc,
                         overshoot := (if seenOvershot c then max 0 (clamped - 100) else 0)\<rparr>
      in (c\<lparr>lastPosition := newPosition, crossingCount := cc\<rparr>, gs, calls))"

text \<open>\<open>setOscillationCount((prev) => prev + 1)\<close> and \<open>setHasOvershot(true)\<close>.\<close>

fun apply_hook :: "hook_call \<Rightarrow> app \<Rightarrow> app" where
  "apply_hook IncOscillationCount s = s\<lparr>oscillationCount := Suc (oscillationCount s)\<rparr>"
| "apply_hook SetOvershot s = s\<lparr>hasOvershot := True\<rparr>"

definition apply_hooks :: "hook_call list \<Rightarrow> app \<Rightarrow> app" where
  "apply_hooks calls s = fold apply_hook calls s"

definition tick_once :: "interval_closure \<Rightarrow> app \<Rightarrow> interval_closure \<times> app" where
  "tick_once c s =
     (case tick_updater c (gameState s) of
        (c', gs, calls) \<Rightarrow> (c', apply_hooks calls (s\<lparr>gameState := gs\<rparr>)))"

definition strict_tick :: "interval_closure \<Rightarrow> app \<Rightarrow> interval_closure \<times> app" where
  "strict_tick c s =
     (case tick_updater c (gameState s) of
        (c1, _, calls1) \<Rightarrow>
          (case tick_updater c1 (gameState s) of
             (c2, gs2, calls2) \<Rightarrow> (c2, apply_hooks (calls1 @ calls2) (s\<lparr>gameState := gs2\<rparr>))))"

lemma apply_hooks_simps [simp]:
  "apply_hooks [] s = s"
  "apply_hooks (h # hs) s = apply_hooks hs (apply_hook h s)"
  by (simp_all add: apply_hooks_def)

lemma apply_hooks_append [simp]: "apply_hooks (xs @ ys) s = apply_hooks ys (apply_hooks xs s)"
  by (simp add: apply_hooks_def)

lemma crossed_same_position [simp]: "\<not> crossed x x"
  by (simp add: crossed_def)

lemma tick_once_is_interval_tick: "tick_once c s = interval_tick c s"
  by (simp add: tick_once_def tick_updater_def interval_tick_def Let_def)

text \<open>
  C16. StrictMode's double invocation of the tick's updater changes nothing: the
  first call records \<open>lastPosition = newPosition\<close>, so the second call, from the
  same previous state, sees no crossing and counts none, returns the same state,
  and at most repeats \<open>setHasOvershot(true)\<close>, which is idempotent. The updater's
  side effects are therefore harmless, although React asks updaters to be pure.
\<close>

theorem strict_mode_tick_harmless: "strict_tick c s = interval_tick c s"
  by (simp add: strict_tick_def tick_updater_def interval_tick_def Let_def)

end
