(* ===== verification/Layout.thy ===== *)
theory Layout
  imports Invariants View
begin

text \<open>
  The CSS box model behind the geometry of \<open>View\<close>: how wide the belt is for a
  viewport of width \<open>vw\<close> pixels (the width available to the page, without a
  scrollbar). \<open>GlobalStyle\<close> (lines 6 to 19) sets \<open>box-sizing: border-box\<close>, no
  margins and a body padding of 20 px; the \<open>Container\<close> (lines 22 to 29) is at
  most 800 px wide and centred; the \<open>GameArea\<close> (lines 117 to 120) has a 30 px
  padding; the \<open>ConveyorBelt\<close> (lines 122 to 131) fills it with a 3 px border.
  The absolutely positioned \<open>TargetMarker\<close> and \<open>CargoBox\<close> (lines 133 to 172)
  take their \<open>left\<close> percentages of the belt's padding box. CSS widths never go
  below zero.
\<close>

definition body_content_width :: "real \<Rightarrow> real" where
  "body_content_width vw = max 0 (vw - 2 * 20)"

definition container_width :: "real \<Rightarrow> real" where
  "container_width vw = min 800 (body_content_width vw)"

definition belt_inner_width :: "real \<Rightarrow> real" where
  "belt_inner_width vw = max 0 (max 0 (container_width vw - 2 * 30) - 2 * 3)"

definition box_left_px :: "real \<Rightarrow> real \<Rightarrow> real" where
  "box_left_px vw left = left / 100 * belt_inner_width vw"

definition marker_left_px :: "real \<Rightarrow> real" where
  "marker_left_px vw = target_marker_left / 100 * belt_inner_width vw"

lemma belt_inner_width_wide: "840 \<le> vw \<Longrightarrow> belt_inner_width vw = 734"
  by (simp add: belt_inner_width_def container_width_def body_content_width_def)

lemma visible_box_width_full:
  assumes "0 < w" and "0 \<le> left"
  shows "visible_box_width w left = cargo_box_width \<longleftrightarrow> left \<le> 100 - 100 * cargo_box_width / w"
proof -
  have x0: "0 \<le> left / 100 * w" using assms by simp
  have "visible_box_width w left = cargo_box_width \<longleftrightarrow> left / 100 * w + cargo_box_width \<le> w"
    using x0 by (auto simp: visible_box_width_def cargo_box_width_def Let_def max_def min_def)
  also have "\<dots> \<longleftrightarrow> left \<le> 100 - 100 * cargo_box_width / w"
    using assms(1) by (simp add: field_simps)
  finally show ?thesis .
qed

text \<open>
  C23. On a viewport at least 840 px wide the belt is 734 px wide inside its
  border, and in every reachable state the box's right edge touches the marker
  labelled as the 100 cm target from position \<open>80 - 7000/734\<close> (about 70.5) on,
  while the box is fully visible only up to position \<open>100 - 7000/734\<close> (about
  90.5). So the box is drawn past the target already when the error is about 29.5,
  and after the first tick at the initial gain (position 86) it is past the
  marker.
\<close>

theorem box_passes_marker_early:
  assumes "reachable s" and "840 \<le> vw"
  shows "belt_inner_width vw = 734 \<and>
         (marker_left_px vw \<le> box_left_px vw (cargo_left (render s)) + cargo_box_width \<longleftrightarrow>
            80 - 7000 / 734 \<le> position (gameState s)) \<and>
         (visible_box_width (belt_inner_width vw) (cargo_left (render s)) = cargo_box_width \<longleftrightarrow>
            position (gameState s) \<le> 100 - 7000 / 734)"
proof -
  have p0: "0 \<le> position (gameState s)"
    using reachable_bounds [OF assms(1)] by (simp add: state_bounds_def Let_def)
  have w: "belt_inner_width vw = 734" by (rule belt_inner_width_wide [OF assms(2)])
  have "marker_left_px vw \<le> box_left_px vw (position (gameState s)) + cargo_box_width \<longleftrightarrow>
          80 - 7000 / 734 \<le> position (gameState s)"
    by (simp add: marker_left_px_def box_left_px_def w target_marker_left_def cargo_box_width_def
        mult.commute)
  moreover have "visible_box_width 734 (position (gameState s)) = cargo_box_width \<longleftrightarrow>
                   position (gameState s) \<le> 100 - 7000 / 734"
    using visible_box_width_full [of 734 "position (gameState s)"] p0 by (simp add: cargo_box_width_def)
  ultimately show ?thesis using w by (simp add: render_def Let_def)
qed

theorem box_passes_marker_early_witness:
  "belt_inner_width 1024 = 734 \<and>
   (marker_left_px 1024 \<le> box_left_px 1024 (cargo_left (render demo_slow)) + cargo_box_width \<longleftrightarrow>
      80 - 7000 / 734 \<le> position (gameState demo_slow)) \<and>
   (visible_box_width (belt_inner_width 1024) (cargo_left (render demo_slow)) = cargo_box_width \<longleftrightarrow>
      position (gameState demo_slow) \<le> 100 - 7000 / 734)"
  by (rule box_passes_marker_early [OF reachable_demo_slow]) simp

end
