(* ===== verification/Animation.thy ===== *)
theory Animation
  imports Invariants View
begin

text \<open>
  What the configured spring does to the drawn box. \<open>useSpring\<close> (lines 262 to
  268) animates the box's \<open>left\<close> towards \<open>position%\<close> with a spring of the
  configured tension \<open>k\<close> and friction \<open>c\<close> and react-spring's default mass
  \<open>m = 1\<close>: \<open>m x'' = - k (x - target) - c x'\<close>. Its damping ratio is
  \<open>c / (2 sqrt (m k))\<close>; below one the spring is underdamped and its step response
  overshoots the target by the fraction \<open>exp (- pi z / sqrt (1 - z^2))\<close> of the step.
  These are properties of react-spring's spring model, written from its
  documentation; react-spring integrates the equation numerically.
\<close>

definition spring_mass :: real where
  "spring_mass = 1"

definition spring_damping_ratio :: "spring_config \<Rightarrow> real" where
  "spring_damping_ratio cfg = friction cfg / (2 * sqrt (spring_mass * tension cfg))"

definition spring_overshoot :: "spring_config \<Rightarrow> real" where
  "spring_overshoot cfg =
     (let z = spring_damping_ratio cfg in exp (- pi * z / sqrt (1 - z\<^sup>2)))"

lemma spring_damping_ratio_sq:
  assumes "0 \<le> g"
  shows "spring_damping_ratio (spring_for g) ^ 2 = (2 + g) / 8"
proof -
  have t: "0 < 100 + g * 50" using assms by simp
  have "spring_damping_ratio (spring_for g) ^ 2 = (10 + g * 5) ^ 2 / (4 * (100 + g * 50))"
    using t by (simp add: spring_damping_ratio_def spring_for_def spring_mass_def power_divide
        power_mult_distrib)
  also have "\<dots> = (2 + g) / 8"
    using t by (simp add: field_simps power2_eq_square)
  finally show ?thesis .
qed

lemma spring_damping_ratio_pos: "0 \<le> g \<Longrightarrow> 0 < spring_damping_ratio (spring_for g)"
  by (simp add: spring_damping_ratio_def spring_for_def spring_mass_def)

text \<open>
  C18. For every gain a session can reach, the animation spring is underdamped:
  its damping ratio \<open>z\<close> has \<open>z^2 = (2 + pGain) / 8\<close>, so \<open>1/2 < z < 1\<close>, and
  its step response overshoots by at least \<open>exp (- pi)\<close> (about 4.3%) of each
  step. The drawn box therefore swings past the positions the controller computes,
  although the state itself never overshoots.
\<close>

theorem spring_underdamped:
  assumes "reachable s"
  shows "spring_damping_ratio (spring_for (pGain (gameState s))) ^ 2 = (2 + pGain (gameState s)) / 8 \<and>
         1 / 2 < spring_damping_ratio (spring_for (pGain (gameState s))) \<and>
         spring_damping_ratio (spring_for (pGain (gameState s))) < 1 \<and>
         exp (- pi) \<le> spring_overshoot (spring_for (pGain (gameState s)))"
proof -
  let ?g = "pGain (gameState s)"
  let ?z = "spring_damping_ratio (spring_for ?g)"
  have g: "1 / 10 \<le> ?g" "?g \<le> 2" using reachable_gain_range [OF assms] by simp_all
  have sq: "?z ^ 2 = (2 + ?g) / 8" using g by (intro spring_damping_ratio_sq) simp
  have z0: "0 < ?z" using g by (intro spring_damping_ratio_pos) simp
  have "1 / 4 < ?z ^ 2" "?z ^ 2 < 1" using g by (simp_all add: sq)
  then have l: "(1 / 2) ^ 2 < ?z ^ 2" and u: "?z\<^sup>2 < 1" by (simp_all add: power_divide)
  have lo: "1 / 2 < ?z" using power_less_imp_less_base [OF l] z0 by simp
  have hi: "?z < 1" using u z0 abs_square_less_1 [of ?z] by simp
  have "?z\<^sup>2 \<le> 1 - ?z\<^sup>2" using sq g by simp
  then have "?z \<le> sqrt (1 - ?z\<^sup>2)" using z0 by (simp add: real_le_rsqrt)
  moreover have "0 < sqrt (1 - ?z\<^sup>2)" using hi z0 by (simp add: power_less_one_iff abs_less_iff)
  ultimately have r1: "?z / sqrt (1 - ?z\<^sup>2) \<le> 1" by simp
  have "pi * (?z / sqrt (1 - ?z\<^sup>2)) \<le> pi"
    using mult_left_le [OF r1, of pi] pi_gt_zero by linarith
  moreover have "- pi * ?z / sqrt (1 - ?z\<^sup>2) = - (pi * (?z / sqrt (1 - ?z\<^sup>2)))"
    by simp
  ultimately have "- pi \<le> - pi * ?z / sqrt (1 - ?z\<^sup>2)" by linarith
  then have "exp (- pi) \<le> spring_overshoot (spring_for ?g)"
    by (simp add: spring_overshoot_def Let_def)
  with sq lo hi show ?thesis by simp
qed

theorem spring_underdamped_witness:
  "spring_damping_ratio (spring_for (pGain (gameState demo_fast))) ^ 2 = (2 + pGain (gameState demo_fast)) / 8 \<and>
   1 / 2 < spring_damping_ratio (spring_for (pGain (gameState demo_fast))) \<and>
   spring_damping_ratio (spring_for (pGain (gameState demo_fast))) < 1 \<and>
   exp (- pi) \<le> spring_overshoot (spring_for (pGain (gameState demo_fast)))"
  by (rule spring_underdamped [OF reachable_demo_fast])

end
