(* ===== verification/Doubles.thy ===== *)
theory Doubles
  imports Engine
begin

text \<open>
  JavaScript numbers are IEEE-754 binary64 values; the rest of the development
  computes with reals. This theory looks at the one place where the difference
  changes what the code does: the last steps of the box towards the setpoint.
  Binary64 values in \<open>[64, 128)\<close> have 52 fraction bits after the leading one, so
  they are the multiples of \<open>2^-46\<close> there (\<open>binade_ulp\<close>), and an arithmetic
  result in that range is rounded to the nearest multiple, the even one on a tie
  (\<open>fl64\<close>, with the executable \<open>round_ties_even\<close>). Near the setpoint the tick's
  arithmetic (lines 279 to 282) is then \<open>double_tick_position\<close>: \<open>100 - position\<close>
  is exact (the operands are within a factor of two of each other), the product
  \<open>pGain * error\<close> is exact when the error is a power of two (it only scales
  \<open>pGain\<close>), and the sum is rounded. The clamp of line 301 follows.
\<close>

definition binade_ulp :: real where
  "binade_ulp = 1 / 2 ^ 46"

definition round_ties_even :: "real \<Rightarrow> int" where
  "round_ties_even x =
     (let f = \<lfloor>x\<rfloor>; d = x - of_int f
      in if d < 1 / 2 then f else if 1 / 2 < d then f + 1 else if even f then f else f + 1)"

definition fl64 :: "real \<Rightarrow> real" where
  "fl64 x = of_int (round_ties_even (x * 2 ^ 46)) / 2 ^ 46"

definition double_tick_position :: "real \<Rightarrow> real \<Rightarrow> real \<times> real" where
  "double_tick_position g p =
     (let err = 100 - p;
          movement = g * err;
          newPosition = fl64 (p + movement)
      in (newPosition, js_clamp 0 100 newPosition))"

text \<open>The largest double below the setpoint.\<close>

definition double_below_setpoint :: real where
  "double_below_setpoint = 100 - binade_ulp"

section \<open>Rounding to nearest\<close>

lemma round_ties_even_shift:
  assumes "0 \<le> d" and "d < 1"
  shows "round_ties_even (of_int m + d) =
           (if d < 1 / 2 then m else if 1 / 2 < d then m + 1 else if even m then m else m + 1)"
proof -
  have "\<lfloor>of_int m + d\<rfloor> = m" using assms by (simp add: floor_eq_iff)
  then show ?thesis by (simp add: round_ties_even_def Let_def)
qed

text \<open>
  \<open>fl64\<close> is rounding to nearest: the result is on the grid of \<open>binade_ulp\<close> and
  within half a grid step of the exact value.
\<close>

lemma fl64_on_grid: "\<exists>n. fl64 x = of_int n * binade_ulp"
  unfolding fl64_def binade_ulp_def
  by (rule exI [of _ "round_ties_even (x * 2 ^ 46)"]) simp

lemma round_ties_even_near: "\<bar>of_int (round_ties_even x) - x\<bar> \<le> 1 / 2"
proof -
  have "of_int \<lfloor>x\<rfloor> \<le> x" "x < of_int \<lfloor>x\<rfloor> + 1" by linarith+
  then show ?thesis unfolding round_ties_even_def Let_def by (simp split: if_split)
qed

lemma fl64_nearest: "\<bar>fl64 x - x\<bar> \<le> binade_ulp / 2"
proof -
  define k :: real where "k = 2 ^ 46"
  have k: "0 < k" by (simp add: k_def)
  have "fl64 x - x = (of_int (round_ties_even (x * k)) - x * k) / k"
    using k by (simp add: fl64_def k_def diff_divide_distrib)
  then have "\<bar>fl64 x - x\<bar> = \<bar>of_int (round_ties_even (x * k)) - x * k\<bar> / k"
    using k by simp
  also have "\<dots> \<le> (1 / 2) / k"
    using k by (intro divide_right_mono [OF round_ties_even_near]) simp
  finally show ?thesis by (simp add: binade_ulp_def k_def)
qed

section \<open>The last step to the setpoint\<close>

lemma double_step_sum:
  "(double_below_setpoint + g * (100 - double_below_setpoint)) * 2 ^ 46 =
     of_int (100 * 2 ^ 46 - 1) + g"
proof -
  define k :: real where "k = 2 ^ 46"
  have k: "0 < k" by (simp add: k_def)
  have d: "double_below_setpoint = 100 - 1 / k"
    by (simp add: double_below_setpoint_def binade_ulp_def k_def)
  have "(double_below_setpoint + g * (100 - double_below_setpoint)) * k = 100 * k - 1 + g"
    unfolding d using k by (simp add: field_simps)
  then show ?thesis by (simp add: k_def)
qed

lemma double_grid_order:
  "0 < binade_ulp" "0 < double_below_setpoint" "double_below_setpoint < 100"
  by (simp_all add: double_below_setpoint_def binade_ulp_def)

lemma double_step_cases:
  assumes "0 < g" and "g \<le> 2"
  shows "fl64 (double_below_setpoint + g * (100 - double_below_setpoint)) =
           (if g < 1 / 2 then double_below_setpoint
            else if g \<le> 3 / 2 then 100 else 100 + binade_ulp)"
proof -
  define M :: int where "M = 100 * 2 ^ 46 - 1"
  have odd: "\<not> even M" and ev: "even (M + 1)" by (simp_all add: M_def)
  have grid: "of_int M / 2 ^ 46 = double_below_setpoint"
    "of_int (M + 1) / 2 ^ 46 = (100 :: real)"
    "of_int (M + 2) / 2 ^ 46 = 100 + binade_ulp"
    by (simp_all add: M_def double_below_setpoint_def binade_ulp_def field_simps)
  consider "g < 1" | "1 \<le> g" "g < 2" | "g = 2" using assms by linarith
  then have r: "round_ties_even (of_int M + g) =
               (if g < 1 / 2 then M else if g \<le> 3 / 2 then M + 1 else M + 2)"
  proof cases
    case 1
    with round_ties_even_shift [of g M] assms odd show ?thesis by auto
  next
    case 2
    have e: "of_int M + g = of_int (M + 1) + (g - 1)" by simp
    have "round_ties_even (of_int (M + 1) + (g - 1)) = (if g \<le> 3 / 2 then M + 1 else M + 2)"
      using round_ties_even_shift [of "g - 1" "M + 1"] 2 ev by auto
    then show ?thesis unfolding e using 2 by simp
  next
    case 3
    have e: "of_int M + g = of_int (M + 2) + 0" using 3 by simp
    show ?thesis unfolding e using 3 round_ties_even_shift [of 0 "M + 2"] by simp
  qed
  have "fl64 (double_below_setpoint + g * (100 - double_below_setpoint)) =
          of_int (round_ties_even (of_int M + g)) / 2 ^ 46"
    unfolding fl64_def double_step_sum M_def ..
  also have "\<dots> = (if g < 1 / 2 then double_below_setpoint
                     else if g \<le> 3 / 2 then 100 else 100 + binade_ulp)"
    unfolding r using grid by simp
  finally show ?thesis .
qed

text \<open>
  C20. With doubles the box does not creep towards the setpoint forever, and what
  happens depends on the gain. From the largest double below 100, a tick with
  \<open>pGain < 1/2\<close> leaves the position where it is. The movement is less than half
  the spacing of the doubles there, so the sum rounds back, and the box stalls
  \<open>2^-46\<close> short of the setpoint for good. With \<open>pGain \<ge> 1/2\<close> (a tie at exactly
  1/2 rounds to the even neighbour, 100) the sum rounds to 100 or to the next
  double above it, and the clamp puts the box at 100. The \<open>>= 100\<close> test then
  counts a crossing, which the real-number model never counts for a gain below one.
\<close>

theorem double_last_step:
  assumes "0 < g" and "g \<le> 2"
  shows "double_tick_position g double_below_setpoint =
           (if g < 1 / 2 then (double_below_setpoint, double_below_setpoint)
            else if g \<le> 3 / 2 then (100, 100) else (100 + binade_ulp, 100)) \<and>
         (crossed double_below_setpoint (fst (double_tick_position g double_below_setpoint)) \<longleftrightarrow>
            1 / 2 \<le> g)"
  using double_step_cases [OF assms] double_grid_order
  by (auto simp: double_tick_position_def Let_def js_clamp_def crossed_def)

theorem double_last_step_witness:
  "double_tick_position (1 / 10) double_below_setpoint =
     (if (1 / 10 :: real) < 1 / 2 then (double_below_setpoint, double_below_setpoint)
      else if (1 / 10 :: real) \<le> 3 / 2 then (100, 100) else (100 + binade_ulp, 100)) \<and>
   (crossed double_below_setpoint (fst (double_tick_position (1 / 10) double_below_setpoint)) \<longleftrightarrow>
      1 / 2 \<le> (1 / 10 :: real))"
  by (rule double_last_step) simp_all

end
