(* ===== verification/Spec2Isabelle.thy ===== *)
theory Spec2Isabelle
  imports Dynamics Numbers Scheduling Styles StrictMode Layout Animation Doubles
begin

text \<open>
  \<^bold>\<open>Verification of the proportional-control teaching game\<close>

  The repository is one React component, \<open>PControlGame\<close> in
  \<^verbatim>\<open>src/src/App.js\<close>. A cargo box on a conveyor is driven towards the setpoint 100 by
  a timer that applies \<open>movement = pGain * (100 - position)\<close> every 100 ms. The
  component has three parts that interact through React state:
  \<^item> the \<^emph>\<open>control loop engine\<close>: the state \<open>gameState\<close>, \<open>oscillationCount\<close> and
    \<open>hasOvershot\<close> (lines 249 to 259) and the \<open>useEffect\<close> game loop (lines 271 to
    319), whose \<open>setInterval\<close> callback computes the P-law, detects crossings and
    overshoot, and clamps the position. The callback keeps \<open>lastPosition\<close> and
    \<open>crossingCount\<close> in closure locals and reads a captured copy of
    \<open>hasOvershot\<close>; React re-runs the effect, with fresh locals, whenever
    \<open>isRunning\<close>, \<open>pGain\<close> or \<open>hasOvershot\<close> changes;
  \<^item> the \<^emph>\<open>session controller\<close>: \<open>handleStart\<close>, \<open>handleReset\<close> and
    \<open>handlePGainChange\<close> (lines 321 to 343), with the gates the page puts in front
    of them: the slider's range and \<open>disabled\<close> attribute, and the disabled start
    button;
  \<^item> the \<^emph>\<open>rendering\<close>: the stats panel and its number texts, the widgets, the
    spring that animates the box (lines 262 to 268, 345 to 442), and the styled
    components (lines 5 to 245), of which the belt, marker and box geometry and the
    state-dependent button, slider and tile styles carry behaviour.
  React schedules all of this: state updates, the re-run of the effect when its
  dependencies change, and the firings of the interval.

  \<^bold>\<open>Theories.\<close> \<open>Prelude\<close>, \<open>Engine\<close>, \<open>Session\<close>, \<open>Invariants\<close>,
  \<open>Controller\<close>, \<open>Dynamics\<close>, \<open>View\<close>, \<open>Lifecycle\<close>, \<open>Numbers\<close>,
  \<open>Scheduling\<close>, \<open>Styles\<close>, \<open>StrictMode\<close>, \<open>Layout\<close>, \<open>Animation\<close> and
  \<open>Doubles\<close>, each
  importing the ones before it that it uses.
  \<^item> \<open>Prelude\<close>: the lemma collection \<open>model_defs\<close> (the definitions a concrete
    step unfolds), the clamp \<open>js_clamp\<close> of line 301 and its laws, the arithmetic of
    one clamped P-step (\<open>clamped_p_step_dist\<close>, \<open>p_step_ge_setpoint_iff\<close>) and
    geometric decay (\<open>decay_below\<close>).
  \<^item> \<open>Engine\<close>: records \<open>game_state\<close> (the \<open>gameState\<close> object),
    \<open>interval_closure\<close> (the effect's locals and its captured flag) and \<open>app\<close>
    (all component state, the live interval and the dependency values of the last
    effect run); \<open>initial_app\<close>; the callback \<open>interval_tick\<close> built from
    \<open>unclamped_next\<close> (lines 279 to 282), \<open>crossed\<close> (285 to 288) and the clamp;
    the effect \<open>run_effect\<close>, its cleanup \<open>effect_cleanup\<close>, the dependency array
    \<open>deps\<close> and React's re-run rule \<open>commit\<close>.
  \<^item> \<open>Session\<close>: the handlers, the slider values \<open>slider_value\<close> /
    \<open>slider_admits\<close>, the events \<open>ui_event\<close> (timer tick, start, reset, slider
    move), the gates \<open>enabled\<close>, \<open>dispatch\<close> (handler, then commit), the step
    relation \<open>app_step\<close> with one rule per event, \<open>reachable\<close>, and \<open>run\<close>, a
    session as a list of events (\<open>None\<close> when the page would not allow one).
  \<^item> \<open>Invariants\<close>: \<open>app_inv\<close> = \<open>state_bounds\<close> (position in \<open>[0, 100]\<close>,
    \<open>error = 100 - position\<close>, gain in \<open>[0.1, 2]\<close>, \<open>overshoot = 0\<close>) \<open>\<and>\<close>
    \<open>effect_sync\<close> (an interval is live exactly while running, its locals agree with
    the committed state) \<open>\<and>\<close> \<open>counters_ok\<close> (the crossing counter is one exactly
    at the setpoint); preservation per event by rule induction, and the properties
    of every reachable state (C1, C5 to C10, C15, C22, C24).
  \<^item> \<open>Controller\<close>: the abstract controller \<open>ctrl\<close> of the spec's data model, a
    pure tick with no hidden loop variables, and the refinement
    \<open>sessions_refine_ctrl\<close> (C2): through \<open>abs_app\<close>, every session of the code is
    the session of the abstract controller. The closed form of \<open>n\<close> ticks is proved
    there once and transferred (\<open>run_ticks_closed_form\<close>).
  \<^item> \<open>Dynamics\<close>: the trajectories. Below gain one the error is multiplied by
    \<open>1 - pGain\<close> per tick (C3). Every gain converges (C4). From gain one on, the box
    sits at 100 after one tick with one crossing (C14). Also the spec's scenarios
    (C11, C12), the unit-gain crossing (C13) and the falling \<open>oscillations\<close>
    field (C21). The lesson's observations close the theory: a larger gain is never
    further from the target (C27), and the target is reached exactly when the gain
    is at least one (C28).
  \<^item> \<open>View\<close>: \<open>render\<close> (what the page shows and disables), \<open>spring_for\<close> (the
    spring configuration), and the geometry \<open>visible_box_width\<close>,
    \<open>target_marker_left\<close>; C19. C17 (one tick never grows the error) is
    in \<open>Engine\<close>.
  \<^item> \<open>Numbers\<close>: what the page prints and what the slider hands over.
    ECMAScript's \<open>toFixed\<close> (\<open>js_toFixed\<close>: round half up, zero padding,
    point insertion, with \<open>RangeError\<close> and the exponent fallback kept as values)
    and \<open>parseFloat\<close> (\<open>js_parseFloat\<close>) over reals, the integer
    \<open>toString\<close> \<open>js_digits\<close>, the slider's value strings \<open>slider_string\<close>
    (lines 359 to 365) and the page's texts \<open>labels\<close> (lines 356 to 396). The
    library lemmas \<open>toFixed_parse_back\<close> (toFixed then parseFloat is rounding) and
    \<open>toFixed_shape\<close> (sign, digits without leading zero, point, \<open>f\<close> digits)
    carry the claims: the slider's strings are exactly the admitted gains (C29),
    the labels read back as the state rounded to their digits (C30), within 0.05,
    so the printed position and error add up to within 0.1 of 100 (C31), the
    labels' format (C32), and a reachable state whose labels add up to 100.1
    (C33).
  \<^item> \<open>Scheduling\<close>: sessions as traces, \<open>app_steps\<close>, equivalent to \<open>run\<close>
    (C38); a finer React model in which an event's state update (\<open>handle\<close>) and
    the re-run of the effect (\<open>Flush\<close>: cleanup, then a fresh interval) are
    separate steps of \<open>sched_step\<close>, interleaved in every order
    (\<open>delayed_reachable\<close>). The bounds hold under every interleaving (C34) and the
    atomic model is one of its schedules (C35), but a tick of the old interval can
    leak after a reset (C36) and a stale closure can count a second crossing (C37).
    Last, the timer loop run until a firing changes nothing, \<open>settle\<close>, a
    \<open>while_option\<close>: it terminates exactly when the gain is at least one, at the
    setpoint, and is \<open>None\<close> below (C39).
  \<^item> \<open>Styles\<close>: the CSS rules whose effect depends on the state
    (\<open>button_look\<close>: the \<open>Button\<close>'s \<open>:disabled\<close> and \<open>:hover\<close> rules,
    lines 181 to 213; \<open>slider_look\<close>: the range input, lines 64 to 85;
    \<open>stat_item_colours\<close>: \<open>StatItem\<close>'s \<open>highlight\<close>, lines 97 to 115) and the
    looks of the rendered widgets, \<open>widget_looks\<close>. The start button shows the
    state, the slider does not (C40).
  \<^item> \<open>StrictMode\<close>: the tick's updater (lines 278 to 311) split as written into
    \<open>tick_updater\<close> (returned state, closure mutations, and the list of setter
    calls in source order) and \<open>apply_hooks\<close> (the calls of
    \<open>setOscillationCount\<close> and \<open>setHasOvershot\<close>); one invocation is the
    engine's \<open>interval_tick\<close> (\<open>tick_once_is_interval_tick\<close>), and React
    StrictMode's double invocation \<open>strict_tick\<close> gives the same result (C16).
  \<^item> \<open>Layout\<close>: the CSS box model of \<open>GlobalStyle\<close>, \<open>Container\<close>,
    \<open>GameArea\<close> and \<open>ConveyorBelt\<close> (\<open>belt_inner_width\<close>: 734 px on viewports
    of at least 840 px), and the pixel positions of the box and the marker; the box
    is drawn touching the target marker from position 70.5 on (C23).
  \<^item> \<open>Animation\<close>: the damping ratio and step-response overshoot of the
    configured spring under react-spring's spring model (mass 1, from its
    documentation): underdamped for every gain, with an overshoot of at least 4.3%
    (C18).
  \<^item> \<open>Doubles\<close>: the tick's arithmetic (lines 279 to 282) in IEEE-754 binary64
    near the setpoint. The doubles in \<open>[64, 128)\<close> are the multiples of
    \<open>binade_ulp\<close> = \<open>2^-46\<close>; \<open>fl64\<close> rounds to the nearest of them, ties to
    even (\<open>round_ties_even\<close>, executable through the floor), and is within half a
    step (\<open>fl64_nearest\<close>). \<open>double_tick_position\<close> rounds the sum
    \<open>position + movement\<close> and then clamps. The difference \<open>100 - position\<close> is
    exact there (Sterbenz), and the product is exact when the error is a power of
    two. From the largest double below 100, a gain below 1/2 stalls there for good,
    and a gain of at least 1/2 reaches 100 and counts a crossing (C20).
  \<^item> \<open>Lifecycle\<close>: the exact reachable states. A stopped state is always freshly
    reset, so there is no pause (C25). A running state is \<open>n\<close> ticks along the
    P-law trajectory from 30, with the crossing counter and the overshoot flag
    determined by \<open>n\<close> and the gain (C26). Both are invariants proved by rule
    induction, the second over the abstract controller.

  \<^bold>\<open>Modelling choices.\<close> JavaScript numbers are modelled as reals (positions,
  errors, gains) and counters as naturals; IEEE rounding is modelled only for the last
  step to the setpoint, in \<open>Doubles\<close> (see below). React's semantics is modelled at the granularity of events. Every event
  (a timer firing or a user action) applies its state updates together, then React
  commits and re-runs the effect if a dependency changed, before the next event.
  This holds in practice because re-renders take far less than the 100 ms period.
  The updater's side effects (\<open>setOscillationCount\<close>, \<open>setHasOvershot\<close>,
  the closure mutations) run once per tick; \<open>StrictMode\<close> shows that running
  them twice, as React's StrictMode does, gives the same result. \<open>Scheduling\<close> drops the assumption that
  the effect re-runs before the next event and keeps every interleaving. The loop
  never terminates by design, so there is no fuel: a run of \<open>n\<close> ticks is the
  event list \<open>replicate n Tick\<close>. That the ticks happen is proved from the
  invariant (an interval is live while running), and convergence is stated as the
  existence of such an \<open>n\<close>. Running the loop until it stops changing the state
  is a \<open>while_option\<close>, whose \<open>None\<close> is the loop that never settles. The
  slider is modelled by the values its \<open>min\<close>, \<open>max\<close> and \<open>step\<close>
  attributes offer, read as exact decimals. Lengths are CSS pixels, as reals.

  \<^bold>\<open>What the proofs show about the code.\<close> The position stays in
  \<open>[0, 100]\<close> and the error is \<open>100 - position\<close>. Reset is exact. No interval
  outlives a stop. Gain changes happen only while stopped, but only the page
  enforces this. The closure machinery implements the memoryless controller.
  Against the spec and the lesson text:
  \<^item> the clamp makes the setpoint a fixed point, so there is never an
    oscillation and the counter never exceeds one (C5, C14);
  \<^item> the reported overshoot is always zero (C6, C12);
  \<^item> a gain of exactly one counts a crossing (C13);
  \<^item> the \<open>oscillations\<close> field can fall (C21);
  \<^item> the box is drawn past the belt's edge at the target, while the target marker
    sits at 80% (C19), and it touches that marker from position 70.5 on (C23);
  \<^item> the animation spring is underdamped, so the drawn box swings past the
    targets the controller computes, although the state never overshoots (C18);
  \<^item> the disabled slider keeps its hover and pointer styling, so it gives no
    sign that the gain cannot be changed (C40);
  \<^item> in binary64, a gain below 1/2 leaves the box stuck \<open>2^-46\<close> short of the
    setpoint, while a gain from 1/2 to 1 reaches it and counts a crossing that the
    real-number model never counts below gain one (C20);
  \<^item> the position and error labels are rounded separately, so they can add up to
    100.1 (C33);
  \<^item> the closure is only refreshed when React re-runs the effect, so the claims on
    stopped states and on the counter (C25, C5) rely on that re-run coming before
    the next firing of the old interval (C36, C37).

  \<^bold>\<open>Not modelled.\<close> The CSS that neither depends on the state nor
  decides the belt's geometry: fonts, colours, shadows, the header, the controls
  and stats panels, the button row and the lesson box (lines 31 to 63, 87 to 94,
  173 to 180, 214 to 245); it has no behaviour to state. The lesson text (lines
  418 to 437) is prose addressed to the learner; its observations are checked
  against the model as C27, C28, C5 and C18 rather than translated. The numerical
  integration react-spring performs (only its spring equation's damping and
  step-response overshoot are modelled). In \<open>Numbers\<close>: exponent notation (never reached: the numbers
  are at most 100), white space beyond ASCII, and the browser's serialisation of
  the slider's value, taken as the shortest decimal. IEEE-754 rounding away from
  the setpoint: \<open>Doubles\<close> rounds only the sum, on the grid of \<open>[64, 128)\<close>,
  which is exact for the last step from \<open>100 - 2^-46\<close> that C20 is about. The
  rounding of the product for other errors, and of the whole trajectory from 30,
  is not modelled.

  \<^bold>\<open>Further work.\<close>
  \<^item> Which orders of \<open>Scheduling\<close> a given React version allows (React 18 flushes
    the effects of a click synchronously, so C36 needs an older scheduler or a
    delayed flush), and the order of the queued updaters when several firings are
    batched into one render.
  \<^item> The drawn trajectory itself: react-spring's numerical integration of the
    spring while its target moves every 100 ms.
  \<^item> Rounding of every operation of the tick along the whole trajectory, to show
    that every gain in \<open>[1/2, 1)\<close> reaches the largest double below 100.
\<close>

end
